theory Spec2Isabelle
  imports Main "HOL-Library.Word"
begin

section \<open>JavaScript values used by the components\<close>

subsection \<open>Strings\<close>

text \<open>
  A JavaScript string is a sequence of UTF-16 code units. \<open>js\<close> turns an ASCII literal
  into such a sequence, so that the literals of the source can be written down.
\<close>

type_synonym jsstring = "16 word list"

definition js :: "string \<Rightarrow> jsstring" where
  "js s = map of_char s"

text \<open>
  The code units that \<^verbatim>\<open>String.prototype.trim\<close> and \<^verbatim>\<open>parseInt\<close> strip: ECMAScript's
  WhiteSpace (TAB, VT, FF, SP, NBSP, ZWNBSP and the Unicode space separators) and
  LineTerminator (LF, CR, LS, PS). All of them lie in the Basic Multilingual Plane, so
  the test on a single code unit is exact.
\<close>

definition isWhiteSpace :: "16 word \<Rightarrow> bool" where
  "isWhiteSpace c =
     (c = 0x0009 \<or> c = 0x000A \<or> c = 0x000B \<or> c = 0x000C \<or> c = 0x000D \<or> c = 0x0020 \<or>
      c = 0x00A0 \<or> c = 0x1680 \<or> (0x2000 \<le> c \<and> c \<le> 0x200A) \<or> c = 0x2028 \<or>
      c = 0x2029 \<or> c = 0x202F \<or> c = 0x205F \<or> c = 0x3000 \<or> c = 0xFEFF)"

definition trimStart :: "jsstring \<Rightarrow> jsstring" where
  "trimStart s = dropWhile isWhiteSpace s"

definition trim :: "jsstring \<Rightarrow> jsstring" where
  "trim s = rev (dropWhile isWhiteSpace (rev (trimStart s)))"

text \<open>
  \<^verbatim>\<open>s.split(',')\<close>: the segments between the occurrences of the separator, in order.
  The result is never empty: a string without separator is its own single segment,
  also when it is the empty string.
\<close>

fun split :: "16 word \<Rightarrow> jsstring \<Rightarrow> jsstring list" where
  "split sep [] = [[]]"
| "split sep (c # cs) =
     (if c = sep then [] # split sep cs
      else (case split sep cs of
              [] \<Rightarrow> [[c]]
            | seg # segs \<Rightarrow> (c # seg) # segs))"

definition comma :: "16 word" where
  "comma = 0x002C"

text \<open>\<^verbatim>\<open>xs.join(sep)\<close> on an array of strings.\<close>

fun join :: "jsstring \<Rightarrow> jsstring list \<Rightarrow> jsstring" where
  "join sep [] = []"
| "join sep [x] = x"
| "join sep (x # y # ys) = x @ sep @ join sep (y # ys)"

subsection \<open>Numbers\<close>

text \<open>
  A Number is a double. The ones that occur here are NaN, the two infinities, negative
  zero, and the doubles whose value is an integer: \<open>Num n\<close> is the double of value \<open>n\<close>
  (\<open>Num 0\<close> is positive zero).
\<close>

datatype jsnum = NaN | Num int | NegZero | Infinity | NegInfinity

text \<open>\<^verbatim>\<open>v || 0\<close> on a Number: NaN and the two zeros are falsy.\<close>

definition truthy :: "jsnum \<Rightarrow> bool" where
  "truthy v =
     (case v of
        NaN \<Rightarrow> False
      | Num n \<Rightarrow> n \<noteq> 0
      | NegZero \<Rightarrow> False
      | Infinity \<Rightarrow> True
      | NegInfinity \<Rightarrow> True)"

definition orZero :: "jsnum \<Rightarrow> jsnum" where
  "orZero v = (if truthy v then v else Num 0)"

text \<open>
  The double nearest to a natural number, as a natural number. A double has 53
  significant bits: a number below \<open>2^53\<close> is a double itself; a longer one keeps its
  leading 53 bits \<open>q\<close>, rounded up when the rest \<open>r\<close> is more than half a unit \<open>h\<close> in the
  last place, or exactly half and \<open>q\<close> is odd (round to nearest, ties to even). The result
  may be \<open>2^1024\<close>, which is beyond the largest double.
\<close>

fun bitLength :: "nat \<Rightarrow> nat" where
  "bitLength n = (if n = 0 then 0 else Suc (bitLength (n div 2)))"

declare bitLength.simps [simp del]

definition roundToDouble :: "nat \<Rightarrow> nat" where
  "roundToDouble n =
     (if n < 2 ^ 53 then n
      else (let e = bitLength n - 53; q = n div 2 ^ e; r = n mod 2 ^ e; h = 2 ^ (e - 1)
            in (if h < r \<or> (r = h \<and> odd q) then q + 1 else q) * 2 ^ e))"

text \<open>
  The Number value of an integer (ECMA-262's conversion of a mathematical value to a
  Number): the nearest double, and an infinity when that is \<open>2^1024\<close> or more. This is
  also what \<^verbatim>\<open>JSON.parse\<close> makes of an integer in a response body.
\<close>

definition toNumber :: "int \<Rightarrow> jsnum" where
  "toNumber x =
     (let m = roundToDouble (nat \<bar>x\<bar>)
      in if 2 ^ 1024 \<le> m then (if x < 0 then NegInfinity else Infinity)
         else Num (if x < 0 then - int m else int m))"

text \<open>The value of a code unit as a digit in radix up to 36, as \<^verbatim>\<open>parseInt\<close> reads it.\<close>

definition digitValue :: "16 word \<Rightarrow> nat option" where
  "digitValue c =
     (if 0x30 \<le> c \<and> c \<le> 0x39 then Some (unat c - 0x30)
      else if 0x61 \<le> c \<and> c \<le> 0x7A then Some (unat c - 0x61 + 10)
      else if 0x41 \<le> c \<and> c \<le> 0x5A then Some (unat c - 0x41 + 10)
      else None)"

definition isRadixDigit :: "nat \<Rightarrow> 16 word \<Rightarrow> bool" where
  "isRadixDigit R c = (case digitValue c of None \<Rightarrow> False | Some v \<Rightarrow> v < R)"

definition radixValue :: "nat \<Rightarrow> jsstring \<Rightarrow> nat" where
  "radixValue R Z =
     foldl (\<lambda>acc c. acc * R + (case digitValue c of None \<Rightarrow> 0 | Some v \<Rightarrow> v)) 0 Z"

text \<open>
  \<^verbatim>\<open>parseInt(s)\<close> with the radix left out, step by step as ECMA-262 gives it: strip
  leading white space, read one sign, switch to radix 16 after a \<open>0x\<close> or \<open>0X\<close> prefix,
  take the longest prefix of digits, and answer NaN when that prefix is empty. A value
  of zero keeps the sign; any other value is converted to a Number. (For more than 20
  decimal digits the standard lets an implementation read the digits after the 20th
  as zeros before it rounds; the engines round the number as written, as is done here.)
\<close>

definition stripSign :: "jsstring \<Rightarrow> int \<times> jsstring" where
  "stripSign S =
     (case S of
        [] \<Rightarrow> (1, [])
      | c # cs \<Rightarrow> if c = 0x2D then (- 1, cs) else if c = 0x2B then (1, cs) else (1, c # cs))"

definition stripPrefix :: "jsstring \<Rightarrow> nat \<times> jsstring" where
  "stripPrefix S =
     (case S of
        c # d # cs \<Rightarrow> if c = 0x30 \<and> (d = 0x78 \<or> d = 0x58) then (16, cs) else (10, S)
      | _ \<Rightarrow> (10, S))"

definition parseInt :: "jsstring \<Rightarrow> jsnum" where
  "parseInt s =
     (let (sign, S) = stripSign (trimStart s);
          (R, S') = stripPrefix S;
          Z = takeWhile (isRadixDigit R) S'
      in if Z = [] then NaN
         else (let mathInt = radixValue R Z
               in if mathInt = 0 then (if sign = - 1 then NegZero else Num 0)
                  else toNumber (sign * int mathInt)))"

text \<open>The decimal digits of a natural number.\<close>

definition digitChar :: "nat \<Rightarrow> 16 word" where
  "digitChar d = of_nat (0x30 + d)"

fun natToString :: "nat \<Rightarrow> jsstring" where
  "natToString n =
     (if n < 10 then [digitChar n] else natToString (n div 10) @ [digitChar (n mod 10)])"

declare natToString.simps [simp del]

text \<open>
  \<^verbatim>\<open>Number.prototype.toString\<close> on a positive double \<open>x\<close> of integer value prints the
  number with the fewest significant digits that still denotes \<open>x\<close>, that is, whose
  nearest double is \<open>x\<close>. With \<open>k\<close> significant digits the candidates are the two
  multiples \<open>lo\<close> and \<open>hi\<close> of the power of ten \<open>p\<close> on either side of \<open>x\<close>; when both denote
  \<open>x\<close> the closer one is taken, and the one with the even last digit when they are
  equally close. With all its digits \<open>x\<close> denotes itself.
\<close>

definition pick :: "nat \<Rightarrow> nat \<Rightarrow> nat option" where
  "pick x k =
     (let p = 10 ^ (length (natToString x) - k);
          s = x div p; lo = s * p; hi = (s + 1) * p;
          okLo = (roundToDouble lo = x); okHi = (roundToDouble hi = x)
      in if okLo \<and> okHi then
           Some (if x - lo < hi - x then lo
                 else if hi - x < x - lo then hi
                 else if even s then lo else hi)
         else if okLo then Some lo
         else if okHi then Some hi
         else None)"

function shortestFrom :: "nat \<Rightarrow> nat \<Rightarrow> nat" where
  "shortestFrom x k =
     (if length (natToString x) \<le> k then x
      else (case pick x k of Some v \<Rightarrow> v | None \<Rightarrow> shortestFrom x (Suc k)))"
  by pat_completeness auto
termination
  by (relation "measure (\<lambda>(x, k). length (natToString x) - k)") auto

declare shortestFrom.simps [simp del]

text \<open>
  The number chosen is printed with all its digits when it has at most 21 of them, and
  otherwise as its significant digits, a point after the first of them when there are
  more, and the exponent.
\<close>

definition exponential :: "nat \<Rightarrow> jsstring" where
  "exponential v =
     (let ds = natToString v;
          sig = rev (dropWhile (\<lambda>c. c = 0x30) (rev ds));
          e = js ''e+'' @ natToString (length ds - 1)
      in case sig of
           [] \<Rightarrow> []
         | [d] \<Rightarrow> d # e
         | d # rest \<Rightarrow> d # 0x2E # rest @ e)"

definition positiveToString :: "nat \<Rightarrow> jsstring" where
  "positiveToString x =
     (let v = shortestFrom x 1
      in if length (natToString v) \<le> 21 then natToString v else exponential v)"

definition numberToString :: "jsnum \<Rightarrow> jsstring" where
  "numberToString v =
     (case v of
        NaN \<Rightarrow> js ''NaN''
      | Num n \<Rightarrow>
          if n = 0 then js ''0''
          else if n < 0 then 0x2D # positiveToString (nat (- n))
          else positiveToString (nat n)
      | NegZero \<Rightarrow> js ''0''
      | Infinity \<Rightarrow> js ''Infinity''
      | NegInfinity \<Rightarrow> js ''-Infinity'')"

text \<open>
  \<^verbatim>\<open>n.toString()\<close> on an integer field of a property: the field is the Number that
  \<^verbatim>\<open>JSON.parse\<close> made of the integer \<open>n\<close> in the response.
\<close>

definition toString :: "int \<Rightarrow> jsstring" where
  "toString n = numberToString (toNumber n)"

section \<open>The admin panel (AdminPanel)\<close>

subsection \<open>Property records, the form draft and the submitted payload\<close>

text \<open>
  A property as the API returns it. The integer fields are the integers of the response
  body; the component holds the Numbers that \<^verbatim>\<open>JSON.parse\<close> made of them. \<open>lot_size\<close> is a
  decimal Number; its type \<open>'f\<close> is left open, and the two conversions the source applies
  to it (\<^verbatim>\<open>parseFloat\<close> and \<^verbatim>\<open>toString\<close>) are parameters of the functions that use them.
\<close>

record 'f property =
  p_id :: jsstring
  p_title :: jsstring
  p_description :: jsstring
  p_price :: int
  p_location :: jsstring
  p_address :: jsstring
  p_bedrooms :: int
  p_bathrooms :: int
  p_sqft :: int
  p_property_type :: jsstring
  p_image_url :: jsstring
  p_amenities :: "jsstring list"
  p_year_built :: "int option"
  p_garage :: "int option"
  p_lot_size :: "'f option"
  p_mls_number :: "jsstring option"
  p_status :: jsstring

text \<open>\<^verbatim>\<open>formData\<close>: every field is a string.\<close>

record draft =
  title :: jsstring
  description :: jsstring
  price :: jsstring
  location :: jsstring
  address :: jsstring
  bedrooms :: jsstring
  bathrooms :: jsstring
  sqft :: jsstring
  property_type :: jsstring
  image_url :: jsstring
  amenities :: jsstring
  year_built :: jsstring
  garage :: jsstring
  lot_size :: jsstring
  mls_number :: jsstring

text \<open>\<^verbatim>\<open>submitData\<close>: the draft with the numeric fields and the amenities coerced.\<close>

record 'f submitData =
  s_title :: jsstring
  s_description :: jsstring
  s_price :: jsnum
  s_location :: jsstring
  s_address :: jsstring
  s_bedrooms :: jsnum
  s_bathrooms :: jsnum
  s_sqft :: jsnum
  s_property_type :: jsstring
  s_image_url :: jsstring
  s_amenities :: "jsstring list"
  s_year_built :: "jsnum option"
  s_garage :: "jsnum option"
  s_lot_size :: "'f option"
  s_mls_number :: jsstring

text \<open>
  The object literal of \<^verbatim>\<open>handleSubmit\<close>. A draft string is truthy exactly when it is
  not empty; \<open>None\<close> is \<^verbatim>\<open>null\<close>.
\<close>

definition toPayload :: "(jsstring \<Rightarrow> 'f) \<Rightarrow> draft \<Rightarrow> 'f submitData" where
  "toPayload parseFloat d =
     \<lparr> s_title = title d,
       s_description = description d,
       s_price = orZero (parseInt (price d)),
       s_location = location d,
       s_address = address d,
       s_bedrooms = orZero (parseInt (bedrooms d)),
       s_bathrooms = orZero (parseInt (bathrooms d)),
       s_sqft = orZero (parseInt (sqft d)),
       s_property_type = property_type d,
       s_image_url = image_url d,
       s_amenities = (if amenities d \<noteq> [] then map trim (split comma (amenities d)) else []),
       s_year_built = (if year_built d \<noteq> [] then Some (parseInt (year_built d)) else None),
       s_garage = (if garage d \<noteq> [] then Some (parseInt (garage d)) else None),
       s_lot_size = (if lot_size d \<noteq> [] then Some (parseFloat (lot_size d)) else None),
       s_mls_number = mls_number d \<rparr>"

definition emptyForm :: draft where
  "emptyForm =
     \<lparr> title = [], description = [], price = [], location = [], address = [],
       bedrooms = [], bathrooms = [], sqft = [], property_type = [], image_url = [],
       amenities = [], year_built = [], garage = [], lot_size = [], mls_number = [] \<rparr>"

subsection \<open>Component state and handlers\<close>

text \<open>
  A request that has settled: fulfilled with a body, or rejected (the network failed or
  the server answered with an error status; axios rejects in both cases).
\<close>

datatype 'a response = Ok 'a | Failed

text \<open>What a handler does to the outside, in the order it does it.\<close>

datatype 'f effect =
    HttpGet
  | HttpPost "'f submitData"
  | HttpPut jsstring "'f submitData"
  | HttpDelete jsstring
  | Confirm jsstring
  | Alert jsstring
  | ConsoleError jsstring

record 'f admin =
  properties :: "'f property list"
  loading :: bool
  isDialogOpen :: bool
  editingProperty :: "'f property option"
  formData :: draft

definition adminInit :: "'f admin" where
  "adminInit =
     \<lparr> properties = [], loading = True, isDialogOpen = False, editingProperty = None,
       formData = emptyForm \<rparr>"

text \<open>
  \<^verbatim>\<open>fetchProperties\<close>, run until its request has settled with \<open>r\<close>: the loading flag
  is raised, the list is replaced when the request succeeds, and the flag is lowered
  in either case.
\<close>

definition fetchProperties ::
  "'f property list response \<Rightarrow> 'f admin \<Rightarrow> 'f admin \<times> 'f effect list" where
  "fetchProperties r s =
     (case r of
        Ok ps \<Rightarrow> (s\<lparr>loading := True\<rparr>\<lparr>properties := ps\<rparr>\<lparr>loading := False\<rparr>, [HttpGet])
      | Failed \<Rightarrow>
          (s\<lparr>loading := True\<rparr>\<lparr>loading := False\<rparr>,
           [HttpGet, ConsoleError (js ''Error fetching properties:'')]))"

definition resetForm :: "'f admin \<Rightarrow> 'f admin" where
  "resetForm s = s\<lparr>formData := emptyForm, editingProperty := None\<rparr>"

text \<open>The request \<^verbatim>\<open>handleSubmit\<close> issues: a PUT when a property is being edited, a POST otherwise.\<close>

definition submitRequest :: "(jsstring \<Rightarrow> 'f) \<Rightarrow> 'f admin \<Rightarrow> 'f effect" where
  "submitRequest parseFloat s =
     (let submitData = toPayload parseFloat (formData s)
      in case editingProperty s of
           Some p \<Rightarrow> HttpPut (p_id p) submitData
         | None \<Rightarrow> HttpPost submitData)"

text \<open>
  \<^verbatim>\<open>handleSubmit\<close>, with \<open>r\<close> the outcome of the awaited mutation request and \<open>fr\<close> the
  outcome of the list request that follows a success. The \<^verbatim>\<open>catch\<close> branch only logs
  and alerts.
\<close>

definition handleSubmit ::
  "(jsstring \<Rightarrow> 'f) \<Rightarrow> unit response \<Rightarrow> 'f property list response \<Rightarrow> 'f admin
     \<Rightarrow> 'f admin \<times> 'f effect list" where
  "handleSubmit parseFloat r fr s =
     (case r of
        Ok _ \<Rightarrow>
          (let (s', es) = fetchProperties fr (resetForm (s\<lparr>isDialogOpen := False\<rparr>))
           in (s', submitRequest parseFloat s # es))
      | Failed \<Rightarrow>
          (s, [submitRequest parseFloat s,
               ConsoleError (js ''Error saving property:''),
               Alert (js ''Error saving property. Please check all fields.'')]))"

text \<open>\<^verbatim>\<open>x?.toString() || ''\<close> on an optional value.\<close>

definition optToString :: "('a \<Rightarrow> jsstring) \<Rightarrow> 'a option \<Rightarrow> jsstring" where
  "optToString sh v =
     (case v of
        None \<Rightarrow> []
      | Some x \<Rightarrow> (let t = sh x in if t \<noteq> [] then t else []))"

text \<open>\<^verbatim>\<open>handleEdit\<close>; \<open>floatToString\<close> is \<^verbatim>\<open>toString\<close> on the decimal \<open>lot_size\<close>.\<close>

definition handleEdit :: "('f \<Rightarrow> jsstring) \<Rightarrow> 'f property \<Rightarrow> 'f admin \<Rightarrow> 'f admin" where
  "handleEdit floatToString property s =
     s\<lparr> editingProperty := Some property,
        formData :=
          \<lparr> title = p_title property,
            description = p_description property,
            price = toString (p_price property),
            location = p_location property,
            address = p_address property,
            bedrooms = toString (p_bedrooms property),
            bathrooms = toString (p_bathrooms property),
            sqft = toString (p_sqft property),
            property_type = p_property_type property,
            image_url = p_image_url property,
            amenities = join (js '', '') (p_amenities property),
            year_built = optToString toString (p_year_built property),
            garage = optToString toString (p_garage property),
            lot_size = optToString floatToString (p_lot_size property),
            mls_number = (case p_mls_number property of
                            None \<Rightarrow> []
                          | Some m \<Rightarrow> if m \<noteq> [] then m else []) \<rparr>,
        isDialogOpen := True \<rparr>"

text \<open>
  \<^verbatim>\<open>handleDelete\<close>, with \<open>confirmed\<close> the answer to \<^verbatim>\<open>window.confirm\<close>, \<open>r\<close> the outcome
  of the DELETE request and \<open>fr\<close> the outcome of the list request that follows a success.
\<close>

definition handleDelete ::
  "bool \<Rightarrow> unit response \<Rightarrow> 'f property list response \<Rightarrow> jsstring \<Rightarrow> 'f admin
     \<Rightarrow> 'f admin \<times> 'f effect list" where
  "handleDelete confirmed r fr propertyId s =
     (let ask = Confirm (js ''Are you sure you want to delete this property?'')
      in if confirmed then
           (case r of
              Ok _ \<Rightarrow>
                (let (s', es) = fetchProperties fr s
                 in (s', ask # HttpDelete propertyId # es))
            | Failed \<Rightarrow>
                (s, [ask, HttpDelete propertyId,
                     ConsoleError (js ''Error deleting property:''),
                     Alert (js ''Error deleting property.'')]))
         else (s, [ask]))"

text \<open>The Cancel button of the dialog: \<^verbatim>\<open>onClick={() => setIsDialogOpen(false)}\<close>.\<close>

definition cancelDialog :: "'f admin \<Rightarrow> 'f admin" where
  "cancelDialog s = s\<lparr>isDialogOpen := False\<rparr>"

text \<open>
  The "Add Property" button in the header: \<^verbatim>\<open>onClick={resetForm}\<close>, wrapped in the
  dialog's trigger.

  Modelled from the spec: the \<^verbatim>\<open>DialogTrigger\<close> of \<^verbatim>\<open>./ui/dialog\<close> is not among the
  sources; by the dialog's state machine (Closed, user opens "Add", Editing) a click
  on the trigger opens the dialog, after the button's own handler has run.
\<close>

definition addPropertyTrigger :: "'f admin \<Rightarrow> 'f admin" where
  "addPropertyTrigger s = (resetForm s)\<lparr>isDialogOpen := True\<rparr>"

text \<open>
  The "Add Your First Property" button, rendered when the list has loaded and is
  empty: \<^verbatim>\<open>onClick={() => setIsDialogOpen(true)}\<close>.
\<close>

definition firstPropertyShown :: "'f admin \<Rightarrow> bool" where
  "firstPropertyShown s = (\<not> loading s \<and> properties s = [])"

definition addFirstProperty :: "'f admin \<Rightarrow> 'f admin" where
  "addFirstProperty s = s\<lparr>isDialogOpen := True\<rparr>"

text \<open>Whether an effect is an HTTP request, a DELETE request, an alert.\<close>

fun isRequest :: "'f effect \<Rightarrow> bool" where
  "isRequest HttpGet = True"
| "isRequest (HttpPost _) = True"
| "isRequest (HttpPut _ _) = True"
| "isRequest (HttpDelete _) = True"
| "isRequest _ = False"

fun isDelete :: "'f effect \<Rightarrow> bool" where
  "isDelete (HttpDelete _) = True"
| "isDelete _ = False"

fun isAlert :: "'f effect \<Rightarrow> bool" where
  "isAlert (Alert _) = True"
| "isAlert _ = False"

text \<open>A listing used to run the handlers on: no optional field is present.\<close>

definition villa :: "unit property" where
  "villa =
     \<lparr> p_id = js ''p1'', p_title = js ''Villa'', p_description = js ''Sea view'',
       p_price = 950000, p_location = js ''Malibu, CA'', p_address = js ''1 Shore Rd'',
       p_bedrooms = 4, p_bathrooms = 3, p_sqft = 3200, p_property_type = js ''house'',
       p_image_url = js ''https://example.com/villa.jpg'',
       p_amenities = [js ''Pool'', js ''Spa''], p_year_built = None, p_garage = None,
       p_lot_size = None, p_mls_number = None, p_status = js ''active'' \<rparr>"

text \<open>A listing with every optional field present; its garage has no space.\<close>

definition loft :: "unit property" where
  "loft =
     \<lparr> p_id = js ''p2'', p_title = js ''Loft'', p_description = js ''Top floor'',
       p_price = 1200000, p_location = js ''Manhattan, NY'', p_address = js ''5 Main St'',
       p_bedrooms = 3, p_bathrooms = 2, p_sqft = 2100, p_property_type = js ''condo'',
       p_image_url = js ''https://example.com/loft.jpg'',
       p_amenities = [js ''Pool'', js ''Spa'', js ''Gym''], p_year_built = Some 2015,
       p_garage = Some 0, p_lot_size = Some (), p_mls_number = Some (js ''MLS123456''),
       p_status = js ''active'' \<rparr>"

section \<open>The chat widget (RealEstatePage)\<close>

datatype sender = user | agent

record message =
  type :: sender
  content :: jsstring

record chat =
  chatOpen :: bool
  messages :: "message list"
  inputMessage :: jsstring
  isLoading :: bool

definition greeting :: jsstring where
  "greeting = js ''Hello! I'm your real estate assistant. I can help you with property searches, market analysis, investment advice, and any questions about buying or selling homes. How can I assist you today?''"

definition apology :: jsstring where
  "apology = js ''I apologize, but I'm having trouble responding right now. Please try again.''"

definition unavailable :: jsstring where
  "unavailable = js ''I'm currently unavailable. Please try again later.''"

definition chatInit :: chat where
  "chatInit =
     \<lparr> chatOpen = False, messages = [\<lparr>type = agent, content = greeting\<rparr>],
       inputMessage = [], isLoading = False \<rparr>"

text \<open>
  \<^verbatim>\<open>sendMessage\<close> up to its \<^verbatim>\<open>await\<close>: the guard, the three state updates, and the
  message posted to the chat endpoint (\<open>None\<close> when the guard returns early).
\<close>

definition sendMessageStart :: "chat \<Rightarrow> chat \<times> jsstring option" where
  "sendMessageStart s =
     (if trim (inputMessage s) = [] \<or> isLoading s then (s, None)
      else (let userMessage = inputMessage s
            in (s\<lparr> inputMessage := [],
                    messages := messages s @ [\<lparr>type = user, content = userMessage\<rparr>],
                    isLoading := True \<rparr>,
                Some userMessage)))"

text \<open>
  The agent turn appended once the request has settled. A fulfilled request carries
  \<^verbatim>\<open>response.data.success\<close> and \<^verbatim>\<open>response.data.response\<close>.
\<close>

definition agentTurn :: "(bool \<times> jsstring) response \<Rightarrow> message" where
  "agentTurn r =
     (case r of
        Ok (success, text) \<Rightarrow>
          if success then \<lparr>type = agent, content = text\<rparr>
          else \<lparr>type = agent, content = apology\<rparr>
      | Failed \<Rightarrow> \<lparr>type = agent, content = unavailable\<rparr>)"

text \<open>\<^verbatim>\<open>sendMessage\<close> after its \<^verbatim>\<open>await\<close>, on the state the component has by then.\<close>

definition sendMessageSettle :: "(bool \<times> jsstring) response \<Rightarrow> chat \<Rightarrow> chat" where
  "sendMessageSettle r s = s\<lparr>messages := messages s @ [agentTurn r], isLoading := False\<rparr>"

definition sendMessage :: "(bool \<times> jsstring) response \<Rightarrow> chat \<Rightarrow> chat" where
  "sendMessage r s =
     (case sendMessageStart s of
        (s', None) \<Rightarrow> s'
      | (s', Some _) \<Rightarrow> sendMessageSettle r s')"

text \<open>
  The widget together with the number of chat requests that have been issued and have
  not settled yet. Each event runs one handler on the rendered state: React re-renders
  after every handler, so the next event sees the updates of the previous one. The
  text area is disabled while a reply is awaited, and a reply can only arrive for a
  request that is outstanding.
\<close>

record chatSys =
  widget :: chat
  outstanding :: nat

datatype chatEvent =
    OpenChat
  | CloseChat
  | Typed jsstring
  | Send
  | Settled "(bool \<times> jsstring) response"

fun chatStep :: "chatSys \<Rightarrow> chatEvent \<Rightarrow> chatSys" where
  "chatStep c OpenChat = c\<lparr>widget := (widget c)\<lparr>chatOpen := True\<rparr>\<rparr>"
| "chatStep c CloseChat = c\<lparr>widget := (widget c)\<lparr>chatOpen := False\<rparr>\<rparr>"
| "chatStep c (Typed v) =
     (if isLoading (widget c) then c else c\<lparr>widget := (widget c)\<lparr>inputMessage := v\<rparr>\<rparr>)"
| "chatStep c Send =
     (case sendMessageStart (widget c) of
        (s', None) \<Rightarrow> c\<lparr>widget := s'\<rparr>
      | (s', Some _) \<Rightarrow> \<lparr>widget = s', outstanding = Suc (outstanding c)\<rparr>)"
| "chatStep c (Settled r) =
     (if outstanding c = 0 then c
      else \<lparr>widget = sendMessageSettle r (widget c), outstanding = outstanding c - 1\<rparr>)"

definition chatRun :: "chatSys \<Rightarrow> chatEvent list \<Rightarrow> chatSys" where
  "chatRun c evs = foldl chatStep c evs"

definition chatSysInit :: chatSys where
  "chatSysInit = \<lparr>widget = chatInit, outstanding = 0\<rparr>"

fun isSettled :: "chatEvent \<Rightarrow> bool" where
  "isSettled (Settled _) = True"
| "isSettled _ = False"

text \<open>
  The invariant of the widget: a request is outstanding exactly while the loading flag
  is set, and then it is the only one.
\<close>

definition chatInv :: "chatSys \<Rightarrow> bool" where
  "chatInv c = (outstanding c = (if isLoading (widget c) then 1 else 0))"

section \<open>Properties of the string functions\<close>

text \<open>The white space of \<^verbatim>\<open>trim\<close>, unit by unit, and three units that are not.\<close>

lemma isWhiteSpace_units:
  "list_all isWhiteSpace
     [0x0009, 0x000A, 0x000B, 0x000C, 0x000D, 0x0020, 0x00A0, 0x1680, 0x2000, 0x2001,
      0x2002, 0x2003, 0x2004, 0x2005, 0x2006, 0x2007, 0x2008, 0x2009, 0x200A, 0x2028,
      0x2029, 0x202F, 0x205F, 0x3000, 0xFEFF]"
  "\<not> isWhiteSpace 0x0085" "\<not> isWhiteSpace 0x180E" "\<not> isWhiteSpace 0x200B"
  by (simp_all add: isWhiteSpace_def)

lemma split_not_Nil: "split sep s \<noteq> []"
  by (induction s) (auto split: list.splits)

text \<open>One segment more than there are separators: no segment is dropped.\<close>

lemma length_split: "length (split sep s) = Suc (count_list s sep)"
  by (induction s) (auto split: list.splits simp: split_not_Nil)

text \<open>The segments are what lies between the separators.\<close>

lemma join_split: "join [sep] (split sep s) = s"
proof (induction s)
  case Nil
  then show ?case by simp
next
  case (Cons c cs)
  obtain seg segs where sp: "split sep cs = seg # segs"
    using split_not_Nil [of sep cs] by (cases "split sep cs") auto
  show ?case
  proof (cases "c = sep")
    case True
    with Cons sp show ?thesis by simp
  next
    case False
    with Cons sp show ?thesis by (cases segs) auto
  qed
qed

lemma split_segments_free: "seg \<in> set (split sep s) \<Longrightarrow> sep \<notin> set seg"
  by (induction s arbitrary: seg) (auto split: if_splits list.splits)

text \<open>
  \<^verbatim>\<open>trim\<close> removes white space at both ends and nothing else: the string is the trimmed
  one between two runs of white space, the trimmed string neither starts nor ends with
  white space, and trimming again changes nothing.
\<close>

lemma dropWhile_unchanged: "xs \<noteq> [] \<Longrightarrow> \<not> P (hd xs) \<Longrightarrow> dropWhile P xs = xs"
  by (cases xs) auto

lemma rev_dropWhile_split:
  "xs = rev (dropWhile P (rev xs)) @ rev (takeWhile P (rev xs))"
proof -
  have "rev (rev xs) = rev (takeWhile P (rev xs) @ dropWhile P (rev xs))"
    by (simp only: takeWhile_dropWhile_id)
  then show ?thesis by (simp only: rev_rev_ident rev_append)
qed

lemma trim_suffix:
  "dropWhile isWhiteSpace s
     = trim s @ rev (takeWhile isWhiteSpace (rev (dropWhile isWhiteSpace s)))"
  unfolding trim_def trimStart_def by (rule rev_dropWhile_split)

lemma trim_decomp:
  "\<exists>a b. s = a @ trim s @ b \<and> (\<forall>c \<in> set a. isWhiteSpace c) \<and> (\<forall>c \<in> set b. isWhiteSpace c)"
proof -
  let ?a = "takeWhile isWhiteSpace s"
  let ?b = "rev (takeWhile isWhiteSpace (rev (dropWhile isWhiteSpace s)))"
  have "s = ?a @ dropWhile isWhiteSpace s" by simp
  with trim_suffix [of s] have "s = ?a @ trim s @ ?b" by simp
  moreover have "\<forall>c \<in> set ?a. isWhiteSpace c" by (auto dest: set_takeWhileD)
  moreover have "\<forall>c \<in> set ?b. isWhiteSpace c" by (auto dest: set_takeWhileD)
  ultimately show ?thesis by blast
qed

lemma trim_Nil: "trim [] = []"
  by (simp add: trim_def trimStart_def)

lemma trim_ends:
  assumes "trim s \<noteq> []"
  shows "\<not> isWhiteSpace (hd (trim s))" and "\<not> isWhiteSpace (last (trim s))"
proof -
  let ?t = "dropWhile isWhiteSpace s"
  let ?u = "dropWhile isWhiteSpace (rev ?t)"
  have u: "?u \<noteq> []" using assms by (simp add: trim_def trimStart_def)
  then have "\<not> isWhiteSpace (hd ?u)" by (rule hd_dropWhile)
  then show "\<not> isWhiteSpace (last (trim s))"
    using u by (simp add: trim_def trimStart_def last_rev)
  have t: "?t \<noteq> []"
  proof
    assume "?t = []"
    then have "?u = []" by (simp only: rev.simps dropWhile.simps)
    with u show False by contradiction
  qed
  then have h: "\<not> isWhiteSpace (hd ?t)" by (rule hd_dropWhile)
  from trim_suffix [of s] assms have "hd ?t = hd (trim s)" by (metis hd_append2)
  with h show "\<not> isWhiteSpace (hd (trim s))" by simp
qed

lemma trim_idem: "trim (trim s) = trim s"
proof (cases "trim s = []")
  case True
  then show ?thesis by (simp add: trim_Nil)
next
  case False
  from trim_ends(1) [OF False] False
  have a: "dropWhile isWhiteSpace (trim s) = trim s"
    by (simp add: dropWhile_unchanged)
  from trim_ends(2) [OF False] False
  have b: "dropWhile isWhiteSpace (rev (trim s)) = rev (trim s)"
    by (simp add: dropWhile_unchanged hd_rev)
  have "trim (trim s) = rev (dropWhile isWhiteSpace (rev (dropWhile isWhiteSpace (trim s))))"
    by (simp only: trim_def trimStart_def)
  also have "\<dots> = trim s" by (simp only: a b rev_rev_ident)
  finally show ?thesis .
qed

lemma trim_example:
  "map trim (split comma (js ''Pool, Spa,  Gym'')) = [js ''Pool'', js ''Spa'', js ''Gym'']"
  by (simp add: js_def comma_def trim_def trimStart_def isWhiteSpace_def)

section \<open>Properties of the number conversions\<close>

lemma isRadixDigit_10: "isRadixDigit 10 c = (0x30 \<le> c \<and> c \<le> 0x39)"
  by (auto simp: isRadixDigit_def digitValue_def word_le_nat_alt split: if_splits)

text \<open>
  A number of \<open>b\<close> bits lies between \<open>2^(b-1)\<close> and \<open>2^b\<close>; rounding to a double leaves
  a number below \<open>2^53\<close> as it is and never takes a number below a power of two that
  it has reached.
\<close>

lemma bitLength_bounds: "0 < n \<Longrightarrow> 2 ^ (bitLength n - 1) \<le> n \<and> n < 2 ^ bitLength n"
proof (induction n rule: bitLength.induct)
  case (1 n)
  show ?case
  proof (cases "n div 2 = 0")
    case True
    with "1.prems" have "n = 1" by auto
    then show ?thesis by (simp add: bitLength.simps [of "Suc 0"] bitLength.simps [of 0])
  next
    case False
    with "1.IH" "1.prems" have ih: "2 ^ (bitLength (n div 2) - 1) \<le> n div 2"
      "n div 2 < 2 ^ bitLength (n div 2)" by auto
    have pos: "0 < bitLength (n div 2)"
      using False by (simp add: bitLength.simps [of "n div 2"])
    have bl: "bitLength n = Suc (bitLength (n div 2))"
      using "1.prems" by (simp add: bitLength.simps [of n])
    from pos obtain b where b: "bitLength (n div 2) = Suc b" by (cases "bitLength (n div 2)") auto
    from ih b have "2 * 2 ^ b \<le> 2 * (n div 2)" "n div 2 < 2 * 2 ^ b" by auto
    then have "2 * 2 ^ b \<le> n" "n < 2 * (2 * 2 ^ b)" by auto
    then show ?thesis by (simp add: bl b)
  qed
qed

lemma roundToDouble_safe: "n < 2 ^ 53 \<Longrightarrow> roundToDouble n = n"
  by (simp add: roundToDouble_def)

lemma div_power_lower: "(2::nat) ^ (a + e) \<le> n \<Longrightarrow> 2 ^ a \<le> n div 2 ^ e"
  by (simp add: power_add less_eq_div_iff_mult_less_eq)

lemma roundToDouble_lower:
  assumes "53 \<le> k" and "2 ^ k \<le> n"
  shows "2 ^ k \<le> roundToDouble n"
proof -
  have n53: "(2::nat) ^ 53 \<le> n"
    using assms power_increasing [of 53 k "2::nat"] by simp
  then have pos: "0 < n" by (simp add: order.strict_trans2 [of 0 "2 ^ 53" n])
  define b where "b = bitLength n"
  from bitLength_bounds [OF pos] have lo: "2 ^ (b - 1) \<le> n" and hi: "n < 2 ^ b"
    by (simp_all add: b_def)
  from assms(2) hi have "(2::nat) ^ k < 2 ^ b" by (rule le_less_trans)
  then have kb: "k < b" by simp
  define e where "e = b - 53"
  have be: "b - 1 = 52 + e" using kb assms(1) by (simp add: e_def)
  from lo have "(2::nat) ^ (52 + e) \<le> n" by (simp only: be)
  then have q: "2 ^ 52 \<le> n div 2 ^ e" by (rule div_power_lower)
  let ?q = "n div 2 ^ e"
  let ?q' = "if 2 ^ (e - 1) < n mod 2 ^ e \<or> (n mod 2 ^ e = 2 ^ (e - 1) \<and> odd ?q) then ?q + 1 else ?q"
  have "2 ^ 52 \<le> ?q'" using q by simp
  then have up: "(2::nat) ^ 52 * 2 ^ e \<le> ?q' * 2 ^ e" by (rule mult_le_mono1)
  have low: "(2::nat) ^ k \<le> 2 ^ 52 * 2 ^ e"
  proof -
    from kb have "k \<le> b - 1" by simp
    then have "(2::nat) ^ k \<le> 2 ^ (b - 1)" by (rule power_increasing) simp
    then have "(2::nat) ^ k \<le> 2 ^ (52 + e)" by (simp only: be)
    then show ?thesis by (simp only: power_add)
  qed
  have val: "roundToDouble n = ?q' * 2 ^ e"
    using n53 by (simp add: roundToDouble_def Let_def b_def e_def)
  from low up have "(2::nat) ^ k \<le> ?q' * 2 ^ e" by (rule le_trans)
  then show ?thesis by (simp only: val)
qed

lemma roundToDouble_inj_safe:
  assumes "roundToDouble v = x" and "x < 2 ^ 53"
  shows "v = x"
proof (cases "v < 2 ^ 53")
  case True
  with assms(1) show ?thesis by (simp add: roundToDouble_safe)
next
  case False
  then have "2 ^ 53 \<le> roundToDouble v"
    using roundToDouble_lower [of 53 v] by simp
  with assms show ?thesis by simp
qed

text \<open>Below \<open>2^53\<close> the only number that denotes \<open>x\<close> is \<open>x\<close>, so \<open>x\<close> is printed with its own digits.\<close>

lemma pick_denotes: "pick x k = Some v \<Longrightarrow> roundToDouble v = x"
  by (auto simp: pick_def Let_def split: if_splits)

lemma shortestFrom_safe: "x < 2 ^ 53 \<Longrightarrow> shortestFrom x k = x"
proof (induction x k rule: shortestFrom.induct)
  case (1 x k)
  show ?case
  proof (cases "length (natToString x) \<le> k")
    case True
    then show ?thesis by (simp add: shortestFrom.simps [of x k])
  next
    case False
    show ?thesis
    proof (cases "pick x k")
      case None
      with False "1.IH" "1.prems" show ?thesis by (simp add: shortestFrom.simps [of x k])
    next
      case (Some v)
      with pick_denotes [OF Some] "1.prems" have "v = x" by (simp add: roundToDouble_inj_safe)
      with False Some show ?thesis by (simp add: shortestFrom.simps [of x k])
    qed
  qed
qed

lemma length_natToString: "n < 10 ^ k \<Longrightarrow> 0 < k \<Longrightarrow> length (natToString n) \<le> k"
proof (induction n arbitrary: k rule: natToString.induct)
  case (1 n)
  show ?case
  proof (cases "n < 10")
    case True
    with "1.prems" show ?thesis by (simp add: natToString.simps [of n])
  next
    case False
    obtain j where j: "k = Suc j" using "1.prems"(2) by (cases k) auto
    with False "1.prems" have "0 < j" by (cases j) auto
    moreover from "1.prems"(1) j have "n div 10 < 10 ^ j" by (simp add: less_mult_imp_div_less mult.commute)
    ultimately have "length (natToString (n div 10)) \<le> j" using "1.IH" False by simp
    with False j show ?thesis by (simp add: natToString.simps [of n])
  qed
qed

lemma positiveToString_safe: "x < 2 ^ 53 \<Longrightarrow> positiveToString x = natToString x"
proof -
  assume s: "x < 2 ^ 53"
  then have "x < 10 ^ 21" by simp
  then have "length (natToString x) \<le> 21" by (rule length_natToString) simp
  with s show ?thesis by (simp add: positiveToString_def shortestFrom_safe)
qed

lemma natToString_zero: "natToString 0 = js ''0''"
  by (simp add: natToString.simps [of 0] digitChar_def js_def)

text \<open>Up to \<open>2^53\<close> an integer is printed with its own digits.\<close>

lemma toString_safe:
  assumes "\<bar>n\<bar> < 2 ^ 53"
  shows "toString n = (if n < 0 then 0x2D # natToString (nat (- n)) else natToString (nat n))"
proof -
  from assms have a: "nat \<bar>n\<bar> < 2 ^ 53" by simp
  then have r: "roundToDouble (nat \<bar>n\<bar>) = nat \<bar>n\<bar>" by (rule roundToDouble_safe)
  have b: "\<not> (2::nat) ^ 1024 \<le> nat \<bar>n\<bar>" using a by simp
  have t: "toNumber n = Num n" using b by (simp add: toNumber_def r Let_def)
  show ?thesis
  proof (cases "n = 0")
    case True
    with t show ?thesis by (simp add: toString_def numberToString_def natToString_zero)
  next
    case False
    from assms have "nat (- n) < 2 ^ 53" "nat n < 2 ^ 53" by simp_all
    with False show ?thesis
      by (simp add: toString_def t numberToString_def positiveToString_safe)
  qed
qed

text \<open>The bounds determine the number of bits.\<close>

lemma bitLength_eq:
  assumes "2 ^ (b - 1) \<le> n" and "n < 2 ^ b" and "0 < b"
  shows "bitLength n = b"
proof -
  from assms(1) have pos: "0 < n" by (simp add: order.strict_trans2 [of 0 "2 ^ (b - 1)" n])
  from bitLength_bounds [OF pos] have lo: "2 ^ (bitLength n - 1) \<le> n" and hi: "n < 2 ^ bitLength n"
    by simp_all
  from lo assms(2) have "(2::nat) ^ (bitLength n - 1) < 2 ^ b" by (rule le_less_trans)
  then have a: "bitLength n - 1 < b" by simp
  from assms(1) hi have "(2::nat) ^ (b - 1) < 2 ^ bitLength n" by (rule le_less_trans)
  then have "b - 1 < bitLength n" by simp
  with a assms(3) show ?thesis by simp
qed

text \<open>Rounding written out for the numbers of 69 and of 70 bits.\<close>

lemma roundToDouble_69:
  assumes "2 ^ 68 \<le> n" and "n < 2 ^ 69"
  shows "roundToDouble n
           = (if 32768 < n mod 65536 \<or> (n mod 65536 = 32768 \<and> odd (n div 65536))
              then n div 65536 + 1 else n div 65536) * 65536"
proof -
  from assms have b: "bitLength n = 69" by (simp add: bitLength_eq)
  from assms(1) have "\<not> n < 2 ^ 53" by simp
  then show ?thesis by (simp add: roundToDouble_def b Let_def)
qed

lemma roundToDouble_70:
  assumes "2 ^ 69 \<le> n" and "n < 2 ^ 70"
  shows "roundToDouble n
           = (if 65536 < n mod 131072 \<or> (n mod 131072 = 65536 \<and> odd (n div 131072))
              then n div 131072 + 1 else n div 131072) * 131072"
proof -
  from assms have b: "bitLength n = 70" by (simp add: bitLength_eq)
  from assms(1) have "\<not> n < 2 ^ 53" by simp
  then show ?thesis by (simp add: roundToDouble_def b Let_def)
qed

lemma length_2_69: "length (natToString 590295810358705651712) = 21"
  by (simp add: natToString.simps)

lemma shortest_2_69: "shortestFrom 590295810358705651712 1 = 590295810358705700000"
  by (simp add: shortestFrom.simps pick_def length_2_69 roundToDouble_69 roundToDouble_70 Let_def)

text \<open>The Number value of an integer below \<open>2^53\<close> in size, and of one from \<open>2^1024\<close> on.\<close>

lemma toNumber_safe: "\<bar>n\<bar> < 2 ^ 53 \<Longrightarrow> toNumber n = Num n"
proof -
  assume a: "\<bar>n\<bar> < 2 ^ 53"
  then have s: "nat \<bar>n\<bar> < 2 ^ 53" by simp
  then have r: "roundToDouble (nat \<bar>n\<bar>) = nat \<bar>n\<bar>" by (rule roundToDouble_safe)
  have b: "\<not> (2::nat) ^ 1024 \<le> nat \<bar>n\<bar>" using s by simp
  then show ?thesis by (simp add: toNumber_def r Let_def)
qed

lemma toNumber_overflow:
  assumes "2 ^ 1024 \<le> n"
  shows "toNumber (int n) = Infinity" and "toNumber (- int n) = NegInfinity"
proof -
  have r: "2 ^ 1024 \<le> roundToDouble n"
    using assms by (rule roundToDouble_lower [rotated]) simp
  have pos: "0 < n" using assms by (simp add: order.strict_trans2 [of 0 "2 ^ 1024" n])
  show "toNumber (int n) = Infinity"
    using r by (simp add: toNumber_def Let_def)
  show "toNumber (- int n) = NegInfinity"
    using r pos by (simp add: toNumber_def Let_def)
qed

lemma digitChar_digit:
  assumes "d < 10"
  shows "isRadixDigit 10 (digitChar d)" and "digitValue (digitChar d) = Some d"
proof -
  have u: "unat (digitChar d) = 48 + d"
    using assms by (simp only: digitChar_def unat_of_nat) simp
  then show r: "isRadixDigit 10 (digitChar d)"
    using assms by (simp add: isRadixDigit_10 word_le_nat_alt)
  then have "0x30 \<le> digitChar d \<and> digitChar d \<le> 0x39"
    by (simp add: isRadixDigit_10)
  then show "digitValue (digitChar d) = Some d"
    using u by (simp add: digitValue_def)
qed

lemma natToString_digits: "c \<in> set (natToString n) \<Longrightarrow> isRadixDigit 10 c"
proof (induction n arbitrary: c rule: natToString.induct)
  case (1 n)
  show ?case
  proof (cases "n < 10")
    case True
    with "1.prems" show ?thesis
      by (simp add: natToString.simps [of n] digitChar_digit)
  next
    case False
    with "1.prems" "1.IH" show ?thesis
      by (auto simp: natToString.simps [of n] digitChar_digit)
  qed
qed

lemma natToString_not_Nil: "natToString n \<noteq> []"
  by (simp add: natToString.simps [of n])

lemma radixValue_snoc:
  "radixValue R (Z @ [c]) = radixValue R Z * R + (case digitValue c of None \<Rightarrow> 0 | Some v \<Rightarrow> v)"
  by (simp add: radixValue_def)

lemma radixValue_natToString: "radixValue 10 (natToString n) = n"
proof (induction n rule: natToString.induct)
  case (1 n)
  show ?case
  proof (cases "n < 10")
    case True
    then show ?thesis
      by (simp add: natToString.simps [of n] radixValue_def digitChar_digit)
  next
    case False
    with "1.IH" show ?thesis
      by (simp add: natToString.simps [of n] radixValue_snoc digitChar_digit)
  qed
qed

lemma digit_plain:
  assumes "isRadixDigit 10 c"
  shows "\<not> isWhiteSpace c" and "c \<noteq> 0x2D" and "c \<noteq> 0x2B" and "c \<noteq> 0x78" and "c \<noteq> 0x58"
  using assms by (auto simp: isRadixDigit_10 isWhiteSpace_def word_le_nat_alt)

text \<open>
  On a string of decimal digits, with or without a minus sign, \<^verbatim>\<open>parseInt\<close> is the
  Number value of the number written.
\<close>

lemma parseInt_digits:
  assumes "S \<noteq> []" and "\<forall>c \<in> set S. isRadixDigit 10 c"
  shows "parseInt S
           = (if radixValue 10 S = 0 then Num 0 else toNumber (int (radixValue 10 S)))"
    and "parseInt (0x2D # S)
           = (if radixValue 10 S = 0 then NegZero else toNumber (- int (radixValue 10 S)))"
proof -
  obtain c cs where S: "S = c # cs" using assms(1) by (cases S) auto
  have c: "isRadixDigit 10 c" using assms(2) S by simp
  have tw: "takeWhile (isRadixDigit 10) S = S"
    using assms(2) by (simp add: takeWhile_eq_all_conv)
  have pre: "stripPrefix S = (10, S)"
  proof (cases cs)
    case Nil
    with S show ?thesis by (simp add: stripPrefix_def)
  next
    case (Cons d ds)
    with assms(2) S have "isRadixDigit 10 d" by simp
    then have "d \<noteq> 0x78" "d \<noteq> 0x58" by (simp_all add: digit_plain)
    with S Cons show ?thesis by (simp add: stripPrefix_def)
  qed
  have ts: "trimStart S = S"
    using c S by (simp add: trimStart_def digit_plain)
  have sg: "stripSign S = (1, S)"
    using digit_plain(2,3) [OF c] S by (simp add: stripSign_def)
  show "parseInt S = (if radixValue 10 S = 0 then Num 0 else toNumber (int (radixValue 10 S)))"
    using assms(1) by (simp add: parseInt_def ts sg pre tw Let_def)
  have ts': "trimStart (0x2D # S) = 0x2D # S"
    by (simp add: trimStart_def isWhiteSpace_def)
  have sg': "stripSign (0x2D # S) = (- 1, S)"
    by (simp add: stripSign_def)
  show "parseInt (0x2D # S)
          = (if radixValue 10 S = 0 then NegZero else toNumber (- int (radixValue 10 S)))"
    using assms(1) by (simp add: parseInt_def ts' sg' pre tw Let_def)
qed

lemma parseInt_natToString:
  "parseInt (natToString n) = (if n = 0 then Num 0 else toNumber (int n))"
  using parseInt_digits(1) [of "natToString n"]
  by (simp add: natToString_not_Nil natToString_digits radixValue_natToString)

text \<open>Up to \<open>2^53\<close>, the string printed for an integer is read back as that integer.\<close>

lemma parseInt_toString:
  assumes "\<bar>n\<bar> < 2 ^ 53"
  shows "parseInt (toString n) = Num n"
proof (cases "n < 0")
  case True
  with assms have "\<bar>- int (nat (- n))\<bar> < 2 ^ 53" by simp
  then have "toNumber (- int (nat (- n))) = Num (- int (nat (- n)))" by (rule toNumber_safe)
  with True show ?thesis
    using parseInt_digits(2) [of "natToString (nat (- n))"]
    by (simp add: toString_safe [OF assms] natToString_not_Nil natToString_digits
          radixValue_natToString)
next
  case False
  with assms have "\<bar>int (nat n)\<bar> < 2 ^ 53" by simp
  then have "toNumber (int (nat n)) = Num (int (nat n))" by (rule toNumber_safe)
  with False show ?thesis
    by (simp add: toString_safe [OF assms] parseInt_natToString)
qed

lemma toString_not_Nil_safe: "\<bar>n\<bar> < 2 ^ 53 \<Longrightarrow> toString n \<noteq> []"
  by (simp add: toString_safe natToString_not_Nil)

lemma stripSign_subset: "set (snd (stripSign T)) \<subseteq> set T"
  by (cases T) (auto simp: stripSign_def)

lemma parseInt_no_digit:
  assumes "\<forall>c \<in> set s. \<not> isRadixDigit 10 c"
  shows "parseInt s = NaN"
proof -
  obtain sign S where sg: "stripSign (trimStart s) = (sign, S)"
    by (cases "stripSign (trimStart s)")
  have sub1: "set (trimStart s) \<subseteq> set s"
    by (auto simp: trimStart_def dest: set_dropWhileD)
  have sub2: "set S \<subseteq> set (trimStart s)"
    using stripSign_subset [of "trimStart s"] sg by simp
  have nd: "\<forall>c \<in> set S. \<not> isRadixDigit 10 c" using assms sub1 sub2 by blast
  have z: "isRadixDigit 10 0x30" by (simp add: isRadixDigit_def digitValue_def)
  have pre: "stripPrefix S = (10, S)"
    using nd z by (auto simp: stripPrefix_def split: list.splits)
  have tw: "takeWhile (isRadixDigit 10) S = []"
    using nd by (cases S) auto
  show ?thesis by (simp add: parseInt_def sg pre tw)
qed

lemma abc_no_digit: "\<forall>c \<in> set (js ''abc''). \<not> isRadixDigit 10 c"
  by (simp add: js_def isRadixDigit_def digitValue_def)

text \<open>\<^verbatim>\<open>parseInt\<close> on strings as they may be typed into the form.\<close>

lemmas parseInt_unfold =
  parseInt_def js_def trimStart_def isWhiteSpace_def stripSign_def stripPrefix_def
  isRadixDigit_def digitValue_def radixValue_def Let_def

lemma small_toNumber: "toNumber 42 = Num 42" "toNumber (- 12) = Num (- 12)" "toNumber 7 = Num 7"
  "toNumber 31 = Num 31" "toNumber 2 = Num 2" "toNumber 2015 = Num 2015"
  by (simp_all add: toNumber_safe)

lemma parseInt_examples:
  "parseInt (js ''abc'') = NaN"
  "parseInt [] = NaN"
  "parseInt (js ''-'') = NaN"
  "parseInt (js ''0x'') = NaN"
  "parseInt (js ''  42 '') = Num 42"
  "parseInt (js '' -12px'') = Num (- 12)"
  "parseInt (js ''+7.9'') = Num 7"
  "parseInt (js ''0x1F'') = Num 31"
  "parseInt (js ''0X1f'') = Num 31"
  "parseInt (js ''0'') = Num 0"
  "parseInt (js ''-0'') = NegZero"
  "parseInt (js ''2'') = Num 2"
  "parseInt (js ''2015'') = Num 2015"
  by (simp_all add: parseInt_unfold small_toNumber)

lemma parseInt_rounds: "parseInt (js ''9007199254740993'') = Num 9007199254740992"
  by (simp add: parseInt_unfold toNumber_def roundToDouble_def bitLength_eq [where b = 54])

lemma parseInt_rounds_up: "parseInt (js ''9007199254740995'') = Num 9007199254740996"
  by (simp add: parseInt_unfold toNumber_def roundToDouble_def bitLength_eq [where b = 54])

text \<open>The largest double, and the first number that is read as Infinity.\<close>

lemma toNumber_largest: "toNumber (2 ^ 1024 - 2 ^ 971) = Num (2 ^ 1024 - 2 ^ 971)"
  by (simp add: toNumber_def roundToDouble_def bitLength_eq [where b = 1024] Let_def)

lemma toNumber_beyond: "toNumber (2 ^ 1024 - 2 ^ 970) = Infinity"
  by (simp add: toNumber_def roundToDouble_def bitLength_eq [where b = 1024] Let_def)

text \<open>\<^verbatim>\<open>toString\<close> on integers as a response may carry them.\<close>

lemma toString_examples:
  "toString 0 = js ''0''"
  "toString 950000 = js ''950000''"
  "toString (- 120) = js ''-120''"
  "toString 4 = js ''4''"
  "toString 2015 = js ''2015''"
  by (simp_all add: toString_safe natToString.simps js_def digitChar_def)

lemma toString_2_69: "toString 590295810358705651712 = js ''590295810358705700000''"
proof -
  have n: "toNumber 590295810358705651712 = Num 590295810358705651712"
    by (simp add: toNumber_def roundToDouble_70 Let_def)
  have d: "natToString 590295810358705700000 = js ''590295810358705700000''"
    by (simp add: natToString.simps js_def digitChar_def)
  show ?thesis
    by (simp add: toString_def n numberToString_def positiveToString_def
          shortest_2_69 [unfolded One_nat_def] d Let_def) (simp add: js_def)
qed

lemma toString_10_21: "toString 1000000000000000000000 = js ''1e+21''"
proof -
  have r: "roundToDouble 1000000000000000000000 = 1000000000000000000000"
    by (simp add: roundToDouble_70 Let_def)
  have n: "toNumber 1000000000000000000000 = Num 1000000000000000000000"
    by (simp add: toNumber_def r Let_def)
  have d: "natToString 1000000000000000000000 = js ''1000000000000000000000''"
    by (simp add: natToString.simps js_def digitChar_def)
  have l: "length (natToString 1000000000000000000000) = 22"
    by (simp add: d js_def)
  have p: "pick 1000000000000000000000 1 = Some 1000000000000000000000"
    by (simp add: pick_def l Let_def roundToDouble_def bitLength_eq [where b = 70]
          bitLength_eq [where b = 71])
  have s: "shortestFrom 1000000000000000000000 1 = 1000000000000000000000"
    by (subst shortestFrom.simps) (simp add: l p [unfolded One_nat_def])
  have e: "exponential 1000000000000000000000 = js ''1e+21''"
    by (simp add: exponential_def d Let_def) (simp add: js_def natToString.simps digitChar_def)
  show ?thesis
    by (simp add: toString_def n numberToString_def positiveToString_def
          s [unfolded One_nat_def] l e Let_def)
qed

text \<open>\<^verbatim>\<open>v || 0\<close> case by case, and on the price written as a decimal number.\<close>

lemma orZero_cases:
  "orZero v = (case v of NaN \<Rightarrow> Num 0 | Num n \<Rightarrow> Num n | NegZero \<Rightarrow> Num 0
               | Infinity \<Rightarrow> Infinity | NegInfinity \<Rightarrow> NegInfinity)"
  by (simp add: orZero_def truthy_def split: jsnum.splits)

lemma orZero_toNumber: "orZero (toNumber x) = toNumber x"
  by (simp add: orZero_cases toNumber_def Let_def)

lemma price_decimal:
  "s_price (toPayload pf (d\<lparr>price := natToString n\<rparr>)) = toNumber (int n)"
proof -
  have "toNumber 0 = Num 0" by (simp add: toNumber_safe)
  then show ?thesis
    by (simp add: toPayload_def parseInt_natToString orZero_toNumber) (simp add: orZero_cases)
qed

section \<open>Coercion of the draft at submit time\<close>

text \<open>
  C1. For every draft, the payload's \<open>price\<close>, \<open>bedrooms\<close>, \<open>bathrooms\<close> and \<open>sqft\<close> are
  the result of \<^verbatim>\<open>parseInt\<close> on the draft's string, with 0 in place of NaN (and of
  negative zero); the coercion has a result for every draft. A price without any digit,
  such as \<open>abc\<close> or the empty string, gives 0. White space and a sign in front are read,
  what follows the digits is dropped, and a \<open>0x\<close> prefix is read as hexadecimal. A price
  written as a decimal number is submitted as the Number value of that number: as the
  number itself below \<open>2^53\<close>, as the nearest double above (9007199254740993 becomes
  9007199254740992 and 9007199254740995 becomes 9007199254740996), up to the largest
  double \<open>2^1024 - 2^971\<close>; \<open>2^1024 - 2^970\<close> and every number from \<open>2^1024\<close> on are
  submitted as Infinity. \<open>year_built\<close> and \<open>garage\<close> are null exactly when their string
  is empty and the result of \<^verbatim>\<open>parseInt\<close> otherwise, which is NaN for a string that is
  not a number; \<open>lot_size\<close> is null when its string is empty and the result of
  \<^verbatim>\<open>parseFloat\<close> otherwise.
\<close>

theorem toPayload_numeric_coercion:
  "s_price (toPayload pf d)
     = (case parseInt (price d) of NaN \<Rightarrow> Num 0 | Num n \<Rightarrow> Num n | NegZero \<Rightarrow> Num 0
        | Infinity \<Rightarrow> Infinity | NegInfinity \<Rightarrow> NegInfinity)
   \<and> s_bedrooms (toPayload pf d)
       = (case parseInt (bedrooms d) of NaN \<Rightarrow> Num 0 | Num n \<Rightarrow> Num n | NegZero \<Rightarrow> Num 0
          | Infinity \<Rightarrow> Infinity | NegInfinity \<Rightarrow> NegInfinity)
   \<and> s_bathrooms (toPayload pf d)
       = (case parseInt (bathrooms d) of NaN \<Rightarrow> Num 0 | Num n \<Rightarrow> Num n | NegZero \<Rightarrow> Num 0
          | Infinity \<Rightarrow> Infinity | NegInfinity \<Rightarrow> NegInfinity)
   \<and> s_sqft (toPayload pf d)
       = (case parseInt (sqft d) of NaN \<Rightarrow> Num 0 | Num n \<Rightarrow> Num n | NegZero \<Rightarrow> Num 0
          | Infinity \<Rightarrow> Infinity | NegInfinity \<Rightarrow> NegInfinity)
   \<and> ((\<forall>c \<in> set (price d). \<not> isRadixDigit 10 c) \<longrightarrow> s_price (toPayload pf d) = Num 0)
   \<and> s_price (toPayload pf (d\<lparr>price := js ''abc''\<rparr>)) = Num 0
   \<and> s_price (toPayload pf (d\<lparr>price := []\<rparr>)) = Num 0
   \<and> s_price (toPayload pf (d\<lparr>price := js ''  42 ''\<rparr>)) = Num 42
   \<and> s_price (toPayload pf (d\<lparr>price := js '' -12px''\<rparr>)) = Num (- 12)
   \<and> s_price (toPayload pf (d\<lparr>price := js ''+7.9''\<rparr>)) = Num 7
   \<and> s_price (toPayload pf (d\<lparr>price := js ''0x1F''\<rparr>)) = Num 31
   \<and> s_price (toPayload pf (d\<lparr>price := js ''-0''\<rparr>)) = Num 0
   \<and> s_price (toPayload pf (d\<lparr>price := js ''9007199254740993''\<rparr>)) = Num 9007199254740992
   \<and> s_price (toPayload pf (d\<lparr>price := js ''9007199254740995''\<rparr>)) = Num 9007199254740996
   \<and> s_price (toPayload pf (d\<lparr>price := natToString (2 ^ 1024 - 2 ^ 971)\<rparr>))
       = Num (2 ^ 1024 - 2 ^ 971)
   \<and> s_price (toPayload pf (d\<lparr>price := natToString (2 ^ 1024 - 2 ^ 970)\<rparr>)) = Infinity
   \<and> s_price (toPayload pf (d\<lparr>price := natToString n\<rparr>)) = toNumber (int n)
   \<and> (n < 2 ^ 53 \<longrightarrow> s_price (toPayload pf (d\<lparr>price := natToString n\<rparr>)) = Num (int n))
   \<and> (2 ^ 1024 \<le> m \<longrightarrow> s_price (toPayload pf (d\<lparr>price := natToString m\<rparr>)) = Infinity)
   \<and> (s_year_built (toPayload pf d) = None) = (year_built d = [])
   \<and> s_year_built (toPayload pf d)
       = (if year_built d = [] then None else Some (parseInt (year_built d)))
   \<and> s_year_built (toPayload pf (d\<lparr>year_built := js ''2015''\<rparr>)) = Some (Num 2015)
   \<and> s_year_built (toPayload pf (d\<lparr>year_built := js ''abc''\<rparr>)) = Some NaN
   \<and> (s_garage (toPayload pf d) = None) = (garage d = [])
   \<and> s_garage (toPayload pf d) = (if garage d = [] then None else Some (parseInt (garage d)))
   \<and> s_garage (toPayload pf (d\<lparr>garage := js ''0''\<rparr>)) = Some (Num 0)
   \<and> s_lot_size (toPayload pf d) = (if lot_size d = [] then None else Some (pf (lot_size d)))"
proof -
  have ne: "js ''2015'' \<noteq> []" "js ''abc'' \<noteq> []" "js ''0'' \<noteq> []"
    by (simp_all add: js_def)
  have coerce: "s_price (toPayload pf d') = orZero (parseInt (price d'))"
    "s_bedrooms (toPayload pf d') = orZero (parseInt (bedrooms d'))"
    "s_bathrooms (toPayload pf d') = orZero (parseInt (bathrooms d'))"
    "s_sqft (toPayload pf d') = orZero (parseInt (sqft d'))" for d'
    by (simp_all add: toPayload_def)
  have general: "s_price (toPayload pf d)
     = (case parseInt (price d) of NaN \<Rightarrow> Num 0 | Num n \<Rightarrow> Num n | NegZero \<Rightarrow> Num 0
        | Infinity \<Rightarrow> Infinity | NegInfinity \<Rightarrow> NegInfinity)"
    "s_bedrooms (toPayload pf d)
       = (case parseInt (bedrooms d) of NaN \<Rightarrow> Num 0 | Num n \<Rightarrow> Num n | NegZero \<Rightarrow> Num 0
          | Infinity \<Rightarrow> Infinity | NegInfinity \<Rightarrow> NegInfinity)"
    "s_bathrooms (toPayload pf d)
       = (case parseInt (bathrooms d) of NaN \<Rightarrow> Num 0 | Num n \<Rightarrow> Num n | NegZero \<Rightarrow> Num 0
          | Infinity \<Rightarrow> Infinity | NegInfinity \<Rightarrow> NegInfinity)"
    "s_sqft (toPayload pf d)
       = (case parseInt (sqft d) of NaN \<Rightarrow> Num 0 | Num n \<Rightarrow> Num n | NegZero \<Rightarrow> Num 0
          | Infinity \<Rightarrow> Infinity | NegInfinity \<Rightarrow> NegInfinity)"
    by (simp_all only: coerce orZero_cases)
  have nodigit: "(\<forall>c \<in> set (price d). \<not> isRadixDigit 10 c) \<longrightarrow> s_price (toPayload pf d) = Num 0"
    by (simp add: coerce parseInt_no_digit orZero_cases)
  have pins: "s_price (toPayload pf (d\<lparr>price := js ''abc''\<rparr>)) = Num 0"
    "s_price (toPayload pf (d\<lparr>price := []\<rparr>)) = Num 0"
    "s_price (toPayload pf (d\<lparr>price := js ''  42 ''\<rparr>)) = Num 42"
    "s_price (toPayload pf (d\<lparr>price := js '' -12px''\<rparr>)) = Num (- 12)"
    "s_price (toPayload pf (d\<lparr>price := js ''+7.9''\<rparr>)) = Num 7"
    "s_price (toPayload pf (d\<lparr>price := js ''0x1F''\<rparr>)) = Num 31"
    "s_price (toPayload pf (d\<lparr>price := js ''-0''\<rparr>)) = Num 0"
    "s_price (toPayload pf (d\<lparr>price := js ''9007199254740993''\<rparr>)) = Num 9007199254740992"
    "s_price (toPayload pf (d\<lparr>price := js ''9007199254740995''\<rparr>)) = Num 9007199254740996"
    by (simp_all add: coerce parseInt_examples parseInt_rounds parseInt_rounds_up orZero_cases)
  have dec: "s_price (toPayload pf (d\<lparr>price := natToString k\<rparr>)) = toNumber (int k)" for k
    by (rule price_decimal)
  have "int (2 ^ 1024 - 2 ^ 971) = 2 ^ 1024 - 2 ^ 971" "int (2 ^ 1024 - 2 ^ 970) = 2 ^ 1024 - 2 ^ 970"
    by simp_all
  then have edge:
    "s_price (toPayload pf (d\<lparr>price := natToString (2 ^ 1024 - 2 ^ 971)\<rparr>))
       = Num (2 ^ 1024 - 2 ^ 971)"
    "s_price (toPayload pf (d\<lparr>price := natToString (2 ^ 1024 - 2 ^ 970)\<rparr>)) = Infinity"
    by (simp_all only: dec toNumber_largest toNumber_beyond)
  have safe: "n < 2 ^ 53 \<longrightarrow> s_price (toPayload pf (d\<lparr>price := natToString n\<rparr>)) = Num (int n)"
    by (simp add: dec toNumber_safe)
  have inf: "2 ^ 1024 \<le> m \<longrightarrow> s_price (toPayload pf (d\<lparr>price := natToString m\<rparr>)) = Infinity"
    by (simp add: dec toNumber_overflow)
  have opt: "(s_year_built (toPayload pf d) = None) = (year_built d = [])"
    "s_year_built (toPayload pf d)
       = (if year_built d = [] then None else Some (parseInt (year_built d)))"
    "s_year_built (toPayload pf (d\<lparr>year_built := js ''2015''\<rparr>)) = Some (Num 2015)"
    "s_year_built (toPayload pf (d\<lparr>year_built := js ''abc''\<rparr>)) = Some NaN"
    "(s_garage (toPayload pf d) = None) = (garage d = [])"
    "s_garage (toPayload pf d) = (if garage d = [] then None else Some (parseInt (garage d)))"
    "s_garage (toPayload pf (d\<lparr>garage := js ''0''\<rparr>)) = Some (Num 0)"
    "s_lot_size (toPayload pf d) = (if lot_size d = [] then None else Some (pf (lot_size d)))"
    using ne by (simp_all add: toPayload_def parseInt_examples)
  from general nodigit pins edge dec [of n] safe inf opt show ?thesis
    by (intro conjI)
qed

theorem toPayload_numeric_coercion_witness:
  "s_price (toPayload (\<lambda>_. ()) (emptyForm\<lparr>price := js ''abc''\<rparr>)) = Num 0
   \<and> s_price (toPayload (\<lambda>_. ()) (emptyForm\<lparr>price := js ''abc'', price := natToString 5\<rparr>))
       = Num 5
   \<and> s_price (toPayload (\<lambda>_. ())
        (emptyForm\<lparr>price := js ''abc'', price := natToString (2 ^ 1024)\<rparr>)) = Infinity
   \<and> s_bedrooms (toPayload (\<lambda>_. ()) (emptyForm\<lparr>price := js ''abc''\<rparr>)) = Num 0
   \<and> s_year_built (toPayload (\<lambda>_. ()) (emptyForm\<lparr>price := js ''abc''\<rparr>)) = None
   \<and> s_lot_size (toPayload (\<lambda>_. ()) (emptyForm\<lparr>price := js ''abc''\<rparr>)) = None"
proof -
  let ?d = "emptyForm\<lparr>price := js ''abc''\<rparr>"
  have nd: "\<forall>c \<in> set (price ?d). \<not> isRadixDigit 10 c"
    using abc_no_digit by simp
  have s: "(5::nat) < 2 ^ 53" by simp
  have b: "(2::nat) ^ 1024 \<le> 2 ^ 1024" by simp
  note th = toPayload_numeric_coercion [of "\<lambda>_. ()" ?d 5 "2 ^ 1024"]
  from th nd have p: "s_price (toPayload (\<lambda>_. ()) ?d) = Num 0" by blast
  from th have "(5::nat) < 2 ^ 53
      \<longrightarrow> s_price (toPayload (\<lambda>_. ()) (?d\<lparr>price := natToString 5\<rparr>)) = Num (int 5)"
    by (elim conjE)
  with s have q: "s_price (toPayload (\<lambda>_. ()) (?d\<lparr>price := natToString 5\<rparr>)) = Num 5"
    by simp
  from th have "(2::nat) ^ 1024 \<le> 2 ^ 1024
      \<longrightarrow> s_price (toPayload (\<lambda>_. ()) (?d\<lparr>price := natToString (2 ^ 1024)\<rparr>)) = Infinity"
    by (elim conjE)
  with b have i: "s_price (toPayload (\<lambda>_. ()) (?d\<lparr>price := natToString (2 ^ 1024)\<rparr>)) = Infinity"
    by (rule rev_mp)
  from th have "s_bedrooms (toPayload (\<lambda>_. ()) ?d)
       = (case parseInt (bedrooms ?d) of NaN \<Rightarrow> Num 0 | Num n \<Rightarrow> Num n | NegZero \<Rightarrow> Num 0
          | Infinity \<Rightarrow> Infinity | NegInfinity \<Rightarrow> NegInfinity)" by blast
  then have bd: "s_bedrooms (toPayload (\<lambda>_. ()) ?d) = Num 0"
    by (simp add: emptyForm_def parseInt_examples)
  from th have "s_year_built (toPayload (\<lambda>_. ()) ?d)
       = (if year_built ?d = [] then None else Some (parseInt (year_built ?d)))" by blast
  then have y: "s_year_built (toPayload (\<lambda>_. ()) ?d) = None" by (simp add: emptyForm_def)
  from th have "s_lot_size (toPayload (\<lambda>_. ()) ?d)
       = (if lot_size ?d = [] then None else Some ())" by blast
  then have l: "s_lot_size (toPayload (\<lambda>_. ()) ?d) = None" by (simp add: emptyForm_def)
  from p q i bd y l show ?thesis by (intro conjI)
qed

text \<open>
  C2. For every draft whose amenities string is not empty, the payload's amenities are
  the segments of the string between its commas, each trimmed (so that trimming it again
  changes nothing), one more than there are commas: no segment is filtered out. The
  string \<open>Pool, Spa,  Gym\<close> gives the three amenities \<open>Pool\<close>, \<open>Spa\<close> and \<open>Gym\<close>.
\<close>

theorem toPayload_amenities_split:
  assumes "amenities d \<noteq> []"
  shows "s_amenities (toPayload pf d) = map trim (split comma (amenities d))
         \<and> length (s_amenities (toPayload pf d)) = Suc (count_list (amenities d) comma)
         \<and> (\<forall>a \<in> set (s_amenities (toPayload pf d)). trim a = a)
         \<and> s_amenities (toPayload pf (d\<lparr>amenities := js ''Pool, Spa,  Gym''\<rparr>))
             = [js ''Pool'', js ''Spa'', js ''Gym'']"
proof -
  have ne: "js ''Pool, Spa,  Gym'' \<noteq> []" by (simp add: js_def)
  show ?thesis using assms ne
    by (simp add: toPayload_def length_split trim_example trim_idem)
qed

theorem toPayload_amenities_split_witness:
  "amenities (emptyForm\<lparr>amenities := js ''a,,b ''\<rparr>) \<noteq> []
   \<and> s_amenities (toPayload (\<lambda>_. ()) (emptyForm\<lparr>amenities := js ''a,,b ''\<rparr>))
       = [js ''a'', [], js ''b'']"
proof -
  have ne: "amenities (emptyForm\<lparr>amenities := js ''a,,b ''\<rparr>) \<noteq> []"
    by (simp add: js_def)
  have ev: "map trim (split comma (js ''a,,b '')) = [js ''a'', [], js ''b'']"
    by (simp add: js_def comma_def trim_def trimStart_def isWhiteSpace_def)
  from toPayload_amenities_split [OF ne, of "\<lambda>_. ()"] ne ev show ?thesis by simp
qed

text \<open>
  C10. When the amenities string of the draft is empty, the payload's amenities are the
  empty list, where splitting and trimming the empty string would give one empty
  amenity.
\<close>

theorem toPayload_amenities_empty:
  "amenities d = [] \<Longrightarrow>
     s_amenities (toPayload pf d) = [] \<and> map trim (split comma (amenities d)) = [[]]"
  by (simp add: toPayload_def trim_def trimStart_def)

theorem toPayload_amenities_empty_witness:
  "amenities emptyForm = [] \<and> s_amenities (toPayload (\<lambda>_. ()) emptyForm) = []"
proof -
  have e: "amenities emptyForm = []" by (simp add: emptyForm_def)
  from toPayload_amenities_empty [OF e, of "\<lambda>_. ()"] e show ?thesis by simp
qed

section \<open>The handlers of the admin panel\<close>

lemma submitRequest_not_get: "submitRequest pf s \<noteq> HttpGet"
  by (simp add: submitRequest_def Let_def split: option.splits)

lemma fetchProperties_effects: "filter isRequest (snd (fetchProperties fr s)) = [HttpGet]"
  by (simp add: fetchProperties_def split: response.splits)

lemma fetchProperties_quiet: "filter isAlert (snd (fetchProperties fr s)) = []"
  by (simp add: fetchProperties_def split: response.splits)

lemma fetchProperties_hd: "\<exists>es. snd (fetchProperties fr s) = HttpGet # es"
  by (simp add: fetchProperties_def split: response.splits)

lemma fetchProperties_state:
  "fst (fetchProperties fr s)
     = s\<lparr>properties := (case fr of Ok ps \<Rightarrow> ps | Failed \<Rightarrow> properties s), loading := False\<rparr>"
  by (simp add: fetchProperties_def split: response.splits)

text \<open>
  C5. When the create or update request fails, \<^verbatim>\<open>handleSubmit\<close> logs the error and shows
  one alert (and none when the request succeeds); the dialog flag, the draft, the editing marker and the list are what they
  were, and no list request is issued. When the request succeeds the dialog is closed,
  the draft is the empty template, the editing marker is cleared and the list is
  requested after the mutation; a list request is issued only in that case.
\<close>

theorem handleSubmit_failure_keeps_dialog:
  "handleSubmit pf Failed fr s
     = (s, [submitRequest pf s, ConsoleError (js ''Error saving property:''),
            Alert (js ''Error saving property. Please check all fields.'')])
   \<and> filter isAlert (snd (handleSubmit pf Failed fr s))
       = [Alert (js ''Error saving property. Please check all fields.'')]
   \<and> isDialogOpen (fst (handleSubmit pf Failed fr s)) = isDialogOpen s
   \<and> formData (fst (handleSubmit pf Failed fr s)) = formData s
   \<and> editingProperty (fst (handleSubmit pf Failed fr s)) = editingProperty s
   \<and> properties (fst (handleSubmit pf Failed fr s)) = properties s
   \<and> HttpGet \<notin> set (snd (handleSubmit pf Failed fr s))
   \<and> isDialogOpen (fst (handleSubmit pf (Ok ()) fr s)) = False
   \<and> formData (fst (handleSubmit pf (Ok ()) fr s)) = emptyForm
   \<and> editingProperty (fst (handleSubmit pf (Ok ()) fr s)) = None
   \<and> filter isRequest (snd (handleSubmit pf (Ok ()) fr s)) = [submitRequest pf s, HttpGet]
   \<and> filter isAlert (snd (handleSubmit pf (Ok ()) fr s)) = []
   \<and> (HttpGet \<in> set (snd (handleSubmit pf r fr s))) = (r = Ok ())"
proof -
  have req: "isRequest (submitRequest pf s)" "\<not> isAlert (submitRequest pf s)"
    by (simp_all add: submitRequest_def Let_def split: option.splits)
  have fail: "handleSubmit pf Failed fr s
     = (s, [submitRequest pf s, ConsoleError (js ''Error saving property:''),
            Alert (js ''Error saving property. Please check all fields.'')])"
    by (simp add: handleSubmit_def)
  have alert: "filter isAlert (snd (handleSubmit pf Failed fr s))
       = [Alert (js ''Error saving property. Please check all fields.'')]"
    by (simp add: fail req)
  have noget: "HttpGet \<notin> set (snd (handleSubmit pf Failed fr s))"
    using submitRequest_not_get [of pf s] by (auto simp: fail)
  have ok: "handleSubmit pf (Ok ()) fr s
     = (fst (fetchProperties fr (resetForm (s\<lparr>isDialogOpen := False\<rparr>))),
        submitRequest pf s # snd (fetchProperties fr (resetForm (s\<lparr>isDialogOpen := False\<rparr>))))"
    by (simp add: handleSubmit_def split: prod.splits)
  have st: "isDialogOpen (fst (handleSubmit pf (Ok ()) fr s)) = False"
    "formData (fst (handleSubmit pf (Ok ()) fr s)) = emptyForm"
    "editingProperty (fst (handleSubmit pf (Ok ()) fr s)) = None"
    by (simp_all add: ok fetchProperties_state resetForm_def)
  have reqs: "filter isRequest (snd (handleSubmit pf (Ok ()) fr s)) = [submitRequest pf s, HttpGet]"
    by (simp add: ok req fetchProperties_effects)
  have quiet: "filter isAlert (snd (handleSubmit pf (Ok ()) fr s)) = []"
    by (simp add: ok req fetchProperties_quiet)
  have get: "HttpGet \<in> set (snd (handleSubmit pf (Ok ()) fr s))"
    using fetchProperties_hd [of fr "resetForm (s\<lparr>isDialogOpen := False\<rparr>)"] by (auto simp: ok)
  have iff: "(HttpGet \<in> set (snd (handleSubmit pf r fr s))) = (r = Ok ())"
    using get noget by (cases r) auto
  show ?thesis using fail alert noget st reqs quiet iff by simp
qed

lemma handleDelete_ok_state:
  "fst (handleDelete True (Ok ()) fr pid s) = fst (fetchProperties fr s)"
  by (simp add: handleDelete_def split: prod.splits)

text \<open>
  C6. When the user declines the confirmation, \<^verbatim>\<open>handleDelete\<close> issues no request and
  leaves the state, and with it the displayed list, unchanged. When the user confirms,
  exactly one DELETE request is issued, for the given id; when it succeeds the list is
  requested again and replaced by the answer, and when it fails no list request follows.
\<close>

theorem handleDelete_confirmation:
  "handleDelete False r fr pid s
     = (s, [Confirm (js ''Are you sure you want to delete this property?'')])
   \<and> filter isRequest (snd (handleDelete False r fr pid s)) = []
   \<and> properties (fst (handleDelete False r fr pid s)) = properties s
   \<and> filter isDelete (snd (handleDelete True r fr pid s)) = [HttpDelete pid]
   \<and> filter isRequest (snd (handleDelete True (Ok ()) fr pid s)) = [HttpDelete pid, HttpGet]
   \<and> filter isRequest (snd (handleDelete True Failed fr pid s)) = [HttpDelete pid]
   \<and> properties (fst (handleDelete True (Ok ()) (Ok ps) pid s)) = ps"
proof -
  have d: "filter isDelete (snd (fetchProperties fr s)) = []"
    by (simp add: fetchProperties_def split: response.splits)
  have ok: "handleDelete True (Ok ()) fr' pid s
     = (fst (fetchProperties fr' s),
        Confirm (js ''Are you sure you want to delete this property?'')
          # HttpDelete pid # snd (fetchProperties fr' s))" for fr'
    by (simp add: handleDelete_def split: prod.splits)
  have del: "filter isDelete (snd (handleDelete True r fr pid s)) = [HttpDelete pid]"
  proof (cases r)
    case (Ok u)
    then show ?thesis using ok d by simp
  next
    case Failed
    then show ?thesis by (simp add: handleDelete_def)
  qed
  have no: "handleDelete False r fr pid s
     = (s, [Confirm (js ''Are you sure you want to delete this property?'')])"
    by (simp add: handleDelete_def)
  have okr: "filter isRequest (snd (handleDelete True (Ok ()) fr pid s)) = [HttpDelete pid, HttpGet]"
    by (simp add: ok fetchProperties_effects)
  have failr: "filter isRequest (snd (handleDelete True Failed fr pid s)) = [HttpDelete pid]"
    by (simp add: handleDelete_def)
  have lst: "properties (fst (handleDelete True (Ok ()) (Ok ps) pid s)) = ps"
    by (simp add: ok fetchProperties_state)
  show ?thesis using no del okr failr lst by simp
qed

lemma join_examples:
  "join (js '', '') [] = []"
  "join (js '', '') [js ''Pool''] = js ''Pool''"
  "join (js '', '') [js ''Pool'', js ''Spa''] = js ''Pool, Spa''"
  "join (js '', '') [js ''Pool'', js ''Spa'', js ''Gym''] = js ''Pool, Spa, Gym''"
  by (simp_all add: js_def)

lemma handleEdit_formData:
  "formData (handleEdit sh p s)
     = \<lparr> title = p_title p,
         description = p_description p,
         price = toString (p_price p),
         location = p_location p,
         address = p_address p,
         bedrooms = toString (p_bedrooms p),
         bathrooms = toString (p_bathrooms p),
         sqft = toString (p_sqft p),
         property_type = p_property_type p,
         image_url = p_image_url p,
         amenities = join (js '', '') (p_amenities p),
         year_built = (case p_year_built p of None \<Rightarrow> [] | Some y \<Rightarrow> toString y),
         garage = (case p_garage p of None \<Rightarrow> [] | Some g \<Rightarrow> toString g),
         lot_size = (case p_lot_size p of None \<Rightarrow> [] | Some x \<Rightarrow> sh x),
         mls_number = (case p_mls_number p of None \<Rightarrow> [] | Some m \<Rightarrow> m) \<rparr>"
  by (simp add: handleEdit_def optToString_def Let_def split: option.splits)

text \<open>
  C7. For every property, \<^verbatim>\<open>handleEdit\<close> fills the draft with the property's fields as
  strings: the text fields as they are, the integers as \<^verbatim>\<open>toString\<close> prints them, the
  amenities joined by a comma and a space, and each of \<open>year_built\<close>, \<open>garage\<close>, \<open>lot_size\<close>
  and \<open>mls_number\<close> as the empty string when it is absent. The editing marker is the
  property, and the dialog is open. An integer below \<open>2^53\<close> in size is printed with its
  decimal digits, and \<^verbatim>\<open>parseInt\<close> reads the draft's string back as that integer; a larger
  one is printed as JavaScript prints it (\<open>2^69\<close> as 590295810358705700000, \<open>10^21\<close> as
  1e+21). The drafts of the two listings \<open>loft\<close> and \<open>villa\<close> are written out; a garage
  of 0 is the string \<open>0\<close>, not the empty string.
\<close>

theorem handleEdit_populates_draft:
  "formData (handleEdit sh p s)
     = \<lparr> title = p_title p,
         description = p_description p,
         price = toString (p_price p),
         location = p_location p,
         address = p_address p,
         bedrooms = toString (p_bedrooms p),
         bathrooms = toString (p_bathrooms p),
         sqft = toString (p_sqft p),
         property_type = p_property_type p,
         image_url = p_image_url p,
         amenities = join (js '', '') (p_amenities p),
         year_built = (case p_year_built p of None \<Rightarrow> [] | Some y \<Rightarrow> toString y),
         garage = (case p_garage p of None \<Rightarrow> [] | Some g \<Rightarrow> toString g),
         lot_size = (case p_lot_size p of None \<Rightarrow> [] | Some x \<Rightarrow> sh x),
         mls_number = (case p_mls_number p of None \<Rightarrow> [] | Some m \<Rightarrow> m) \<rparr>
   \<and> editingProperty (handleEdit sh p s) = Some p
   \<and> isDialogOpen (handleEdit sh p s)
   \<and> (\<bar>p_price p\<bar> < 2 ^ 53 \<longrightarrow>
        price (formData (handleEdit sh p s))
          = (if p_price p < 0 then 0x2D # natToString (nat (- p_price p))
             else natToString (nat (p_price p)))
        \<and> parseInt (price (formData (handleEdit sh p s))) = Num (p_price p))
   \<and> (\<bar>p_bedrooms p\<bar> < 2 ^ 53 \<longrightarrow>
        parseInt (bedrooms (formData (handleEdit sh p s))) = Num (p_bedrooms p))
   \<and> (\<bar>p_bathrooms p\<bar> < 2 ^ 53 \<longrightarrow>
        parseInt (bathrooms (formData (handleEdit sh p s))) = Num (p_bathrooms p))
   \<and> (\<bar>p_sqft p\<bar> < 2 ^ 53 \<longrightarrow>
        parseInt (sqft (formData (handleEdit sh p s))) = Num (p_sqft p))
   \<and> price (formData (handleEdit sh (p\<lparr>p_price := 590295810358705651712\<rparr>) s))
       = js ''590295810358705700000''
   \<and> price (formData (handleEdit sh (p\<lparr>p_price := 1000000000000000000000\<rparr>) s))
       = js ''1e+21''
   \<and> price (formData (handleEdit sh (p\<lparr>p_price := - 120\<rparr>) s)) = js ''-120''
   \<and> amenities (formData (handleEdit sh (p\<lparr>p_amenities := []\<rparr>) s)) = []
   \<and> amenities (formData (handleEdit sh (p\<lparr>p_amenities := [js ''Pool'']\<rparr>) s)) = js ''Pool''
   \<and> formData (handleEdit (\<lambda>_. js ''0.25'') loft t)
       = \<lparr> title = js ''Loft'', description = js ''Top floor'', price = js ''1200000'',
           location = js ''Manhattan, NY'', address = js ''5 Main St'', bedrooms = js ''3'',
           bathrooms = js ''2'', sqft = js ''2100'', property_type = js ''condo'',
           image_url = js ''https://example.com/loft.jpg'',
           amenities = js ''Pool, Spa, Gym'', year_built = js ''2015'', garage = js ''0'',
           lot_size = js ''0.25'', mls_number = js ''MLS123456'' \<rparr>
   \<and> formData (handleEdit (\<lambda>_. js ''0.25'') villa t)
       = \<lparr> title = js ''Villa'', description = js ''Sea view'', price = js ''950000'',
           location = js ''Malibu, CA'', address = js ''1 Shore Rd'', bedrooms = js ''4'',
           bathrooms = js ''3'', sqft = js ''3200'', property_type = js ''house'',
           image_url = js ''https://example.com/villa.jpg'',
           amenities = js ''Pool, Spa'', year_built = [], garage = [],
           lot_size = [], mls_number = [] \<rparr>"
proof -
  have safe: "\<bar>p_price p\<bar> < 2 ^ 53 \<longrightarrow>
        price (formData (handleEdit sh p s))
          = (if p_price p < 0 then 0x2D # natToString (nat (- p_price p))
             else natToString (nat (p_price p)))
        \<and> parseInt (price (formData (handleEdit sh p s))) = Num (p_price p)"
  proof
    assume a: "\<bar>p_price p\<bar> < 2 ^ 53"
    have "price (formData (handleEdit sh p s)) = toString (p_price p)"
      by (simp add: handleEdit_formData)
    with toString_safe [OF a] parseInt_toString [OF a]
    show "price (formData (handleEdit sh p s))
          = (if p_price p < 0 then 0x2D # natToString (nat (- p_price p))
             else natToString (nat (p_price p)))
        \<and> parseInt (price (formData (handleEdit sh p s))) = Num (p_price p)"
      by (simp only:)
  qed
  have reads: "\<bar>p_bedrooms p\<bar> < 2 ^ 53 \<longrightarrow>
        parseInt (bedrooms (formData (handleEdit sh p s))) = Num (p_bedrooms p)"
    "\<bar>p_bathrooms p\<bar> < 2 ^ 53 \<longrightarrow>
        parseInt (bathrooms (formData (handleEdit sh p s))) = Num (p_bathrooms p)"
    "\<bar>p_sqft p\<bar> < 2 ^ 53 \<longrightarrow>
        parseInt (sqft (formData (handleEdit sh p s))) = Num (p_sqft p)"
    by (simp_all add: handleEdit_formData parseInt_toString)
  have big: "price (formData (handleEdit sh (p\<lparr>p_price := 590295810358705651712\<rparr>) s))
       = js ''590295810358705700000''"
    "price (formData (handleEdit sh (p\<lparr>p_price := 1000000000000000000000\<rparr>) s))
       = js ''1e+21''"
    "price (formData (handleEdit sh (p\<lparr>p_price := - 120\<rparr>) s)) = js ''-120''"
    by (simp_all add: handleEdit_formData toString_2_69 toString_10_21 toString_examples)
  have am: "amenities (formData (handleEdit sh (p\<lparr>p_amenities := []\<rparr>) s)) = []"
    "amenities (formData (handleEdit sh (p\<lparr>p_amenities := [js ''Pool'']\<rparr>) s)) = js ''Pool''"
    by (simp_all add: handleEdit_formData)
  have ts: "toString 1200000 = js ''1200000''" "toString 3 = js ''3''" "toString 2 = js ''2''"
    "toString 2100 = js ''2100''" "toString 3200 = js ''3200''"
    by (simp_all add: toString_safe natToString.simps js_def digitChar_def)
  have lo: "formData (handleEdit (\<lambda>_. js ''0.25'') loft t)
       = \<lparr> title = js ''Loft'', description = js ''Top floor'', price = js ''1200000'',
           location = js ''Manhattan, NY'', address = js ''5 Main St'', bedrooms = js ''3'',
           bathrooms = js ''2'', sqft = js ''2100'', property_type = js ''condo'',
           image_url = js ''https://example.com/loft.jpg'',
           amenities = js ''Pool, Spa, Gym'', year_built = js ''2015'', garage = js ''0'',
           lot_size = js ''0.25'', mls_number = js ''MLS123456'' \<rparr>"
    by (simp add: handleEdit_formData loft_def ts toString_examples js_def)
  have vi: "formData (handleEdit (\<lambda>_. js ''0.25'') villa t)
       = \<lparr> title = js ''Villa'', description = js ''Sea view'', price = js ''950000'',
           location = js ''Malibu, CA'', address = js ''1 Shore Rd'', bedrooms = js ''4'',
           bathrooms = js ''3'', sqft = js ''3200'', property_type = js ''house'',
           image_url = js ''https://example.com/villa.jpg'',
           amenities = js ''Pool, Spa'', year_built = [], garage = [],
           lot_size = [], mls_number = [] \<rparr>"
    by (simp add: handleEdit_formData villa_def ts toString_examples js_def)
  have st: "editingProperty (handleEdit sh p s) = Some p" "isDialogOpen (handleEdit sh p s)"
    by (simp_all add: handleEdit_def)
  from handleEdit_formData [of sh p s] st safe reads big am lo vi show ?thesis
    by (intro conjI)
qed

theorem handleEdit_populates_draft_witness:
  "\<bar>p_price villa\<bar> < 2 ^ 53 \<and> \<bar>p_bedrooms villa\<bar> < 2 ^ 53
   \<and> \<bar>p_bathrooms villa\<bar> < 2 ^ 53 \<and> \<bar>p_sqft villa\<bar> < 2 ^ 53
   \<and> price (formData (handleEdit (\<lambda>_. []) villa adminInit)) = js ''950000''
   \<and> parseInt (price (formData (handleEdit (\<lambda>_. []) villa adminInit))) = Num 950000
   \<and> parseInt (bedrooms (formData (handleEdit (\<lambda>_. []) villa adminInit))) = Num 4
   \<and> parseInt (bathrooms (formData (handleEdit (\<lambda>_. []) villa adminInit))) = Num 3
   \<and> parseInt (sqft (formData (handleEdit (\<lambda>_. []) villa adminInit))) = Num 3200
   \<and> editingProperty (handleEdit (\<lambda>_. []) villa adminInit) = Some villa"
proof -
  have h: "\<bar>p_price villa\<bar> < 2 ^ 53" "\<bar>p_bedrooms villa\<bar> < 2 ^ 53"
    "\<bar>p_bathrooms villa\<bar> < 2 ^ 53" "\<bar>p_sqft villa\<bar> < 2 ^ 53"
    by (simp_all add: villa_def)
  have v: "p_price villa = 950000" "p_bedrooms villa = 4" "p_bathrooms villa = 3"
    "p_sqft villa = 3200"
    by (simp_all add: villa_def)
  have d: "natToString 950000 = js ''950000''"
    by (simp add: natToString.simps js_def digitChar_def)
  note th = handleEdit_populates_draft
    [where sh = "\<lambda>_. []" and p = villa and s = adminInit and t = adminInit]
  from th have "\<bar>p_price villa\<bar> < 2 ^ 53 \<longrightarrow>
        price (formData (handleEdit (\<lambda>_. []) villa adminInit))
          = (if p_price villa < 0 then 0x2D # natToString (nat (- p_price villa))
             else natToString (nat (p_price villa)))
        \<and> parseInt (price (formData (handleEdit (\<lambda>_. []) villa adminInit))) = Num (p_price villa)"
    by (elim conjE)
  then have both: "price (formData (handleEdit (\<lambda>_. []) villa adminInit))
          = (if p_price villa < 0 then 0x2D # natToString (nat (- p_price villa))
             else natToString (nat (p_price villa)))
        \<and> parseInt (price (formData (handleEdit (\<lambda>_. []) villa adminInit))) = Num (p_price villa)"
    using h(1) by (rule mp)
  from both [THEN conjunct1]
  have a1: "price (formData (handleEdit (\<lambda>_. []) villa adminInit)) = js ''950000''"
    by (simp add: v d)
  from both [THEN conjunct2]
  have a2: "parseInt (price (formData (handleEdit (\<lambda>_. []) villa adminInit))) = Num 950000"
    by (simp only: v)
  from th have "\<bar>p_bedrooms villa\<bar> < 2 ^ 53 \<longrightarrow>
        parseInt (bedrooms (formData (handleEdit (\<lambda>_. []) villa adminInit))) = Num (p_bedrooms villa)"
    by (elim conjE)
  with h(2) have b: "parseInt (bedrooms (formData (handleEdit (\<lambda>_. []) villa adminInit))) = Num 4"
    by (simp add: v)
  from th have "\<bar>p_bathrooms villa\<bar> < 2 ^ 53 \<longrightarrow>
        parseInt (bathrooms (formData (handleEdit (\<lambda>_. []) villa adminInit))) = Num (p_bathrooms villa)"
    by (elim conjE)
  with h(3) have c: "parseInt (bathrooms (formData (handleEdit (\<lambda>_. []) villa adminInit))) = Num 3"
    by (simp add: v)
  from th have "\<bar>p_sqft villa\<bar> < 2 ^ 53 \<longrightarrow>
        parseInt (sqft (formData (handleEdit (\<lambda>_. []) villa adminInit))) = Num (p_sqft villa)"
    by (elim conjE)
  with h(4) have e: "parseInt (sqft (formData (handleEdit (\<lambda>_. []) villa adminInit))) = Num 3200"
    by (simp add: v)
  from th have m: "editingProperty (handleEdit (\<lambda>_. []) villa adminInit) = Some villa"
    by (elim conjE)
  from h a1 a2 b c e m show ?thesis by (intro conjI)
qed

text \<open>A draft made by \<^verbatim>\<open>handleEdit\<close> is submitted with the price it was made from.\<close>

lemma edit_then_submit_price:
  "\<bar>p_price p\<bar> < 2 ^ 53 \<Longrightarrow>
     s_price (toPayload pf (formData (handleEdit sh p s))) = Num (p_price p)"
  by (simp add: handleEdit_formData toPayload_def parseInt_toString orZero_cases)

text \<open>The header's "Add Property" button opens the dialog on the empty template.\<close>

lemma addPropertyTrigger_blank:
  "formData (addPropertyTrigger s) = emptyForm \<and> editingProperty (addPropertyTrigger s) = None
   \<and> isDialogOpen (addPropertyTrigger s)"
  by (simp add: addPropertyTrigger_def resetForm_def)

lemma villa_title_ne: "js ''Villa'' \<noteq> []"
  by (simp add: js_def)

text \<open>
  C8. Opening the dialog for a new property should present the empty template with the
  editing marker cleared. The button shown for an empty list opens the dialog without
  resetting the form: the list is loaded with one listing, the listing is opened for
  editing, the dialog is cancelled, and the listing is deleted, so that the list is empty
  and the button is shown; a click on it opens the dialog with the draft of the deleted
  listing and with the editing marker still set to it.
\<close>

theorem addFirstProperty_stale_draft:
  "(let s1 = fst (fetchProperties (Ok [villa]) adminInit);
        s2 = handleEdit (\<lambda>_. []) villa s1;
        s3 = cancelDialog s2;
        s4 = fst (handleDelete True (Ok ()) (Ok []) (p_id villa) s3);
        s5 = addFirstProperty s4
    in villa \<in> set (properties s1) \<and> loading s1 = False
       \<and> isDialogOpen s4 = False \<and> firstPropertyShown s4
       \<and> isDialogOpen s5 \<and> editingProperty s5 = Some villa
       \<and> title (formData s5) = js ''Villa'' \<and> formData s5 \<noteq> emptyForm)"
proof -
  have "title (formData (handleEdit (\<lambda>_. []) villa s)) \<noteq> title emptyForm" for s :: "unit admin"
    using villa_title_ne by (simp add: handleEdit_def villa_def emptyForm_def)
  then have ne: "formData (handleEdit (\<lambda>_. []) villa s) \<noteq> emptyForm" for s :: "unit admin"
    by metis
  have t: "title (formData (handleEdit (\<lambda>_. []) villa s)) = js ''Villa''" for s :: "unit admin"
    by (simp add: handleEdit_def villa_def)
  have e: "editingProperty (handleEdit (\<lambda>_. []) villa s) = Some villa" for s :: "unit admin"
    by (simp add: handleEdit_def)
  show ?thesis
    using ne t e
    by (simp add: Let_def fetchProperties_state handleDelete_ok_state firstPropertyShown_def
          addFirstProperty_def cancelDialog_def adminInit_def)
qed

lemma handleSubmit_ok_state:
  "fst (handleSubmit pf (Ok ()) fr s)
     = fst (fetchProperties fr (resetForm (s\<lparr>isDialogOpen := False\<rparr>)))"
  by (simp add: handleSubmit_def split: prod.splits)

lemma resetForm_blank:
  "formData (resetForm x) = emptyForm" "editingProperty (resetForm x) = None"
  by (simp_all add: resetForm_def)

lemma addPropertyTrigger_resets:
  "formData (addPropertyTrigger x) = emptyForm" "editingProperty (addPropertyTrigger x) = None"
  by (simp_all add: addPropertyTrigger_def resetForm_def)

text \<open>
  C9, as stated: after Cancel the draft is the empty template and the editing marker
  is cleared. This fails for a listing opened for editing and then cancelled.
\<close>

theorem cancelDialog_discards_counterexample:
  "\<not> (formData (cancelDialog
                   (handleEdit (\<lambda>_. []) villa (fst (fetchProperties (Ok [villa]) adminInit))))
        = emptyForm
      \<and> editingProperty (cancelDialog
                   (handleEdit (\<lambda>_. []) villa (fst (fetchProperties (Ok [villa]) adminInit))))
        = None)"
  by (simp add: cancelDialog_def handleEdit_def)

text \<open>
  C9, amended. Cancel only closes the dialog: the draft and the editing marker keep
  their values, as for a listing that was opened for editing. They become the empty
  template and the cleared marker when \<^verbatim>\<open>resetForm\<close> runs; the header's "Add Property"
  button runs it, also right after a cancel, and so does a submit whose request succeeds,
  while a submit whose request fails leaves them as they are.
\<close>

theorem cancelDialog_keeps_draft:
  "cancelDialog s = s\<lparr>isDialogOpen := False\<rparr>
   \<and> isDialogOpen (cancelDialog s) = False
   \<and> formData (cancelDialog s) = formData s
   \<and> editingProperty (cancelDialog s) = editingProperty s
   \<and> formData (resetForm (cancelDialog s)) = emptyForm
   \<and> editingProperty (resetForm (cancelDialog s)) = None
   \<and> formData (addPropertyTrigger (cancelDialog s)) = emptyForm
   \<and> editingProperty (addPropertyTrigger (cancelDialog s)) = None
   \<and> formData (addPropertyTrigger t) = emptyForm
   \<and> editingProperty (addPropertyTrigger t) = None
   \<and> formData (fst (handleSubmit pf (Ok ()) fr t)) = emptyForm
   \<and> editingProperty (fst (handleSubmit pf (Ok ()) fr t)) = None
   \<and> formData (fst (handleSubmit pf Failed fr t)) = formData t
   \<and> editingProperty (fst (handleSubmit pf Failed fr t)) = editingProperty t
   \<and> title (formData (cancelDialog (handleEdit sh villa u))) = js ''Villa''
   \<and> editingProperty (cancelDialog (handleEdit sh villa u)) = Some villa
   \<and> formData (addPropertyTrigger (cancelDialog (handleEdit sh villa u))) = emptyForm
   \<and> editingProperty (addPropertyTrigger (cancelDialog (handleEdit sh villa u))) = None"
proof -
  have c: "cancelDialog s = s\<lparr>isDialogOpen := False\<rparr>"
    "isDialogOpen (cancelDialog s) = False"
    "formData (cancelDialog s) = formData s"
    "editingProperty (cancelDialog s) = editingProperty s"
    by (simp_all add: cancelDialog_def)
  have ok: "formData (fst (handleSubmit pf (Ok ()) fr t)) = emptyForm"
    "editingProperty (fst (handleSubmit pf (Ok ()) fr t)) = None"
    by (simp_all add: handleSubmit_ok_state fetchProperties_state resetForm_def)
  have fl: "formData (fst (handleSubmit pf Failed fr t)) = formData t"
    "editingProperty (fst (handleSubmit pf Failed fr t)) = editingProperty t"
    by (simp_all add: handleSubmit_def)
  have v: "title (formData (cancelDialog (handleEdit sh villa u))) = js ''Villa''"
    "editingProperty (cancelDialog (handleEdit sh villa u)) = Some villa"
    by (simp_all add: cancelDialog_def handleEdit_def villa_def)
  from c resetForm_blank [of "cancelDialog s"] addPropertyTrigger_resets [of "cancelDialog s"]
    addPropertyTrigger_resets [of t] ok fl v
    addPropertyTrigger_resets [of "cancelDialog (handleEdit sh villa u)"]
  show ?thesis by (intro conjI)
qed

section \<open>The chat widget\<close>

lemma agentTurn_type: "type (agentTurn r) = agent"
  by (simp add: agentTurn_def split: response.splits prod.splits)

lemma chatInv_step: "chatInv c \<Longrightarrow> chatInv (chatStep c e)"
  by (cases e) (auto simp: chatInv_def sendMessageStart_def sendMessageSettle_def Let_def)

lemma chatInv_run: "chatInv c \<Longrightarrow> chatInv (chatRun c evs)"
  unfolding chatRun_def
  by (induction evs arbitrary: c) (simp_all add: chatInv_step)

lemma chatInv_init: "chatInv chatSysInit"
  by (simp add: chatInv_def chatSysInit_def chatInit_def)

lemma chatStep_in_flight:
  "isLoading (widget c) \<Longrightarrow> \<not> isSettled e \<Longrightarrow>
     isLoading (widget (chatStep c e)) \<and> messages (widget (chatStep c e)) = messages (widget c)
     \<and> outstanding (chatStep c e) = outstanding c"
  by (cases e) (auto simp: sendMessageStart_def)

lemma chatRun_in_flight:
  "isLoading (widget c) \<Longrightarrow> \<forall>e \<in> set evs. \<not> isSettled e \<Longrightarrow>
     messages (widget (chatRun c evs)) = messages (widget c)
     \<and> outstanding (chatRun c evs) = outstanding c"
  unfolding chatRun_def
proof (induction evs arbitrary: c)
  case Nil
  then show ?case by simp
next
  case (Cons e evs)
  from Cons.prems have st: "isLoading (widget (chatStep c e))"
    "messages (widget (chatStep c e)) = messages (widget c)"
    "outstanding (chatStep c e) = outstanding c"
    using chatStep_in_flight [of c e] by auto
  from Cons.IH [OF st(1)] Cons.prems(2) st show ?case by simp
qed

lemma hi_trim: "trim (js ''hi'') \<noteq> []"
  by (simp add: js_def trim_def trimStart_def isWhiteSpace_def)

lemma blank_trim: "trim (js ''  '') = []"
  by (simp add: js_def trim_def trimStart_def isWhiteSpace_def)

text \<open>
  C3. A send that passes the guard appends the user's turn and then, once the request
  has settled, exactly one agent turn: the response text when the response carries
  \<open>success = true\<close>, the fixed apology when it carries \<open>success = false\<close>, and the fixed
  notice of unavailability when the request fails. The transcript is the old one with
  these two turns at its end. Settling appends its agent turn to whatever the transcript
  is by then and removes nothing.
\<close>

theorem sendMessage_appends_two_turns:
  assumes "trim (inputMessage s) \<noteq> []" and "\<not> isLoading s"
  shows "messages (sendMessage r s)
           = messages s @ [\<lparr>type = user, content = inputMessage s\<rparr>, agentTurn r]
         \<and> length (messages (sendMessage r s)) = length (messages s) + 2
         \<and> type (agentTurn r) = agent
         \<and> agentTurn (Ok (True, t)) = \<lparr>type = agent, content = t\<rparr>
         \<and> agentTurn (Ok (False, t)) = \<lparr>type = agent, content = apology\<rparr>
         \<and> agentTurn Failed = \<lparr>type = agent, content = unavailable\<rparr>
         \<and> messages (sendMessageSettle r c) = messages c @ [agentTurn r]"
proof -
  from assms have st: "sendMessageStart s
      = (s\<lparr> inputMessage := [],
             messages := messages s @ [\<lparr>type = user, content = inputMessage s\<rparr>],
             isLoading := True \<rparr>, Some (inputMessage s))"
    by (simp add: sendMessageStart_def Let_def)
  have m: "messages (sendMessage r s)
           = messages s @ [\<lparr>type = user, content = inputMessage s\<rparr>, agentTurn r]"
    by (simp add: sendMessage_def st sendMessageSettle_def)
  have a: "agentTurn (Ok (True, t)) = \<lparr>type = agent, content = t\<rparr>"
    "agentTurn (Ok (False, t)) = \<lparr>type = agent, content = apology\<rparr>"
    "agentTurn Failed = \<lparr>type = agent, content = unavailable\<rparr>"
    by (simp_all add: agentTurn_def)
  have c: "messages (sendMessageSettle r c) = messages c @ [agentTurn r]"
    by (simp add: sendMessageSettle_def)
  show ?thesis using m a c agentTurn_type [of r] by simp
qed

theorem sendMessage_appends_two_turns_witness:
  "trim (inputMessage (chatInit\<lparr>inputMessage := js ''hi''\<rparr>)) \<noteq> []
   \<and> isLoading (chatInit\<lparr>inputMessage := js ''hi''\<rparr>) = False
   \<and> messages (sendMessage Failed (chatInit\<lparr>inputMessage := js ''hi''\<rparr>))
       = [\<lparr>type = agent, content = greeting\<rparr>, \<lparr>type = user, content = js ''hi''\<rparr>,
          \<lparr>type = agent, content = unavailable\<rparr>]"
proof -
  have t: "trim (inputMessage (chatInit\<lparr>inputMessage := js ''hi''\<rparr>)) \<noteq> []"
    using hi_trim by simp
  have l: "\<not> isLoading (chatInit\<lparr>inputMessage := js ''hi''\<rparr>)"
    by (simp add: chatInit_def)
  from sendMessage_appends_two_turns [OF t l, of Failed] t l show ?thesis
    by (simp add: chatInit_def)
qed

text \<open>
  C4. When the input is empty or consists of white space only, or a reply is awaited,
  \<^verbatim>\<open>sendMessage\<close> issues no request and leaves the state unchanged. In every state the
  widget reaches from its initial one, at most one chat request is outstanding, and one
  is outstanding exactly while the loading flag is set. While a reply is awaited, no
  sequence of clicks and keystrokes changes the transcript or the number of outstanding
  requests, until the reply arrives.
\<close>

theorem sendMessage_suppressed:
  "(trim (inputMessage s) = [] \<or> isLoading s
      \<longrightarrow> sendMessageStart s = (s, None) \<and> sendMessage r s = s)
   \<and> outstanding (chatRun chatSysInit evs) \<le> 1
   \<and> isLoading (widget (chatRun chatSysInit evs)) = (outstanding (chatRun chatSysInit evs) = 1)
   \<and> (isLoading (widget c) \<and> (\<forall>e \<in> set evs'. \<not> isSettled e)
        \<longrightarrow> messages (widget (chatRun c evs')) = messages (widget c)
            \<and> outstanding (chatRun c evs') = outstanding c)"
proof -
  have a: "trim (inputMessage s) = [] \<or> isLoading s
      \<longrightarrow> sendMessageStart s = (s, None) \<and> sendMessage r s = s"
    by (auto simp: sendMessage_def sendMessageStart_def)
  have inv: "chatInv (chatRun chatSysInit evs)"
    by (rule chatInv_run [OF chatInv_init])
  then have b: "outstanding (chatRun chatSysInit evs) \<le> 1"
    and c: "isLoading (widget (chatRun chatSysInit evs)) = (outstanding (chatRun chatSysInit evs) = 1)"
    by (auto simp: chatInv_def split: if_splits)
  from a b c chatRun_in_flight [of c evs'] show ?thesis by blast
qed

theorem sendMessage_suppressed_witness:
  "trim (inputMessage (chatInit\<lparr>inputMessage := js ''  ''\<rparr>)) = []
   \<and> sendMessage (Ok (True, js ''yes'')) (chatInit\<lparr>inputMessage := js ''  ''\<rparr>)
       = chatInit\<lparr>inputMessage := js ''  ''\<rparr>
   \<and> isLoading (widget (chatRun chatSysInit [Typed (js ''hi''), Send]))
   \<and> outstanding (chatRun chatSysInit [Typed (js ''hi''), Send]) = 1
   \<and> messages (widget (chatRun (chatRun chatSysInit [Typed (js ''hi''), Send])
                          [Send, Typed (js ''again''), Send]))
       = [\<lparr>type = agent, content = greeting\<rparr>, \<lparr>type = user, content = js ''hi''\<rparr>]
   \<and> outstanding (chatRun (chatRun chatSysInit [Typed (js ''hi''), Send])
                     [Send, Typed (js ''again''), Send]) = 1"
proof -
  have b: "trim (inputMessage (chatInit\<lparr>inputMessage := js ''  ''\<rparr>)) = []"
    using blank_trim by simp
  have c0: "chatRun chatSysInit [Typed (js ''hi''), Send]
      = \<lparr>widget = \<lparr>chatOpen = False,
                    messages = [\<lparr>type = agent, content = greeting\<rparr>,
                                \<lparr>type = user, content = js ''hi''\<rparr>],
                    inputMessage = [], isLoading = True\<rparr>,
         outstanding = 1\<rparr>"
    using hi_trim
    by (simp add: chatRun_def chatSysInit_def chatInit_def sendMessageStart_def Let_def)
  have l: "isLoading (widget (chatRun chatSysInit [Typed (js ''hi''), Send]))"
    by (simp add: c0)
  have q: "\<forall>e \<in> set [Send, Typed (js ''again''), Send]. \<not> isSettled e"
    by simp
  from sendMessage_suppressed
         [of "chatInit\<lparr>inputMessage := js ''  ''\<rparr>" "Ok (True, js ''yes'')"
             "[Typed (js ''hi''), Send]" "chatRun chatSysInit [Typed (js ''hi''), Send]"
             "[Send, Typed (js ''again''), Send]"]
    b l q
  show ?thesis by (simp add: c0)
qed

end
